theory Spec2Isabelle
  imports Complex_Main
begin

section \<open>Numbers and array reads\<close>

text \<open>
  The source is TypeScript over the three.js vector library. A JavaScript number is
  modelled as a \<^typ>\<open>real\<close>: every stored number (vertex data, matrix entries, widths,
  the ray) is finite and arithmetic is exact, so rounding is not part of the model.
  The places where the source produces a value that is not a finite number are written
  out one by one: a read past the end of an array gives \<open>undefined\<close>, which becomes
  \<open>NaN\<close> in arithmetic; \<open>0 / 0\<close> is \<open>NaN\<close>; \<open>c / 0\<close> is an infinity. Such a value is
  \<open>None\<close> in the model, and each comparison that receives it is written with the
  result JavaScript gives (every comparison with \<open>NaN\<close> is false).
\<close>

definition js_nth :: "'a list \<Rightarrow> nat \<Rightarrow> 'a option" where
  \<comment> \<open>\<open>xs[i]\<close>: \<open>undefined\<close> past the end.\<close>
  "js_nth xs i = (if i < length xs then Some (xs ! i) else None)"

definition js_gt :: "real option \<Rightarrow> real option \<Rightarrow> bool" where
  \<comment> \<open>\<open>a > b\<close> where \<open>a\<close> may be \<open>NaN\<close> and \<open>b\<close> may be \<open>NaN\<close> or \<open>+Infinity\<close> (both \<open>None\<close>).\<close>
  "js_gt a b = (case (a, b) of (Some u, Some v) \<Rightarrow> u > v | _ \<Rightarrow> False)"

section \<open>three.js: Vector3\<close>

datatype vec3 = Vector3 (vx: real) (vy: real) (vz: real)

definition v_add :: "vec3 \<Rightarrow> vec3 \<Rightarrow> vec3" where
  "v_add a b = Vector3 (vx a + vx b) (vy a + vy b) (vz a + vz b)"

definition v_sub :: "vec3 \<Rightarrow> vec3 \<Rightarrow> vec3" where
  \<comment> \<open>\<open>subVectors(a, b)\<close>\<close>
  "v_sub a b = Vector3 (vx a - vx b) (vy a - vy b) (vz a - vz b)"

definition multiplyScalar :: "vec3 \<Rightarrow> real \<Rightarrow> vec3" where
  "multiplyScalar a s = Vector3 (vx a * s) (vy a * s) (vz a * s)"

definition v_dot :: "vec3 \<Rightarrow> vec3 \<Rightarrow> real" where
  "v_dot a b = vx a * vx b + vy a * vy b + vz a * vz b"

definition v_cross :: "vec3 \<Rightarrow> vec3 \<Rightarrow> vec3" where
  "v_cross a b = Vector3 (vy a * vz b - vz a * vy b)
                         (vz a * vx b - vx a * vz b)
                         (vx a * vy b - vy a * vx b)"

definition v_length :: "vec3 \<Rightarrow> real" where
  "v_length a = sqrt (vx a * vx a + vy a * vy a + vz a * vz a)"

definition normalize :: "vec3 \<Rightarrow> vec3" where
  \<comment> \<open>\<open>divideScalar(this.length() || 1)\<close>: a zero vector is divided by 1.\<close>
  "normalize a = (let l = v_length a in multiplyScalar a (1 / (if l = 0 then 1 else l)))"

definition distanceToSquared :: "vec3 \<Rightarrow> vec3 \<Rightarrow> real" where
  "distanceToSquared a b =
     (let dx = vx a - vx b; dy = vy a - vy b; dz = vz a - vz b
      in dx * dx + dy * dy + dz * dz)"

definition distanceTo :: "vec3 \<Rightarrow> vec3 \<Rightarrow> real" where
  "distanceTo a b = sqrt (distanceToSquared a b)"

definition v_min :: "vec3 \<Rightarrow> vec3 \<Rightarrow> vec3" where
  "v_min a b = Vector3 (min (vx a) (vx b)) (min (vy a) (vy b)) (min (vz a) (vz b))"

definition v_max :: "vec3 \<Rightarrow> vec3 \<Rightarrow> vec3" where
  "v_max a b = Vector3 (max (vx a) (vx b)) (max (vy a) (vy b)) (max (vz a) (vz b))"

section \<open>three.js: Matrix4\<close>

text \<open>
  \<open>Object3D.matrixWorld\<close> is kept by the library as a product of matrices composed from
  position, rotation and scale; the last row of such a matrix is \<open>(0, 0, 0, 1)\<close>. The
  model keeps the other three rows, so the perspective divide of \<open>applyMatrix4\<close> is a
  division by 1. A projective matrix written into \<open>matrixWorld\<close> by hand is outside the
  model.
\<close>

datatype matrix4 = Matrix4
  (n11: real) (n12: real) (n13: real) (n14: real)
  (n21: real) (n22: real) (n23: real) (n24: real)
  (n31: real) (n32: real) (n33: real) (n34: real)

definition applyMatrix4 :: "vec3 \<Rightarrow> matrix4 \<Rightarrow> vec3" where
  "applyMatrix4 v m = Vector3
     (n11 m * vx v + n12 m * vy v + n13 m * vz v + n14 m)
     (n21 m * vx v + n22 m * vy v + n23 m * vz v + n24 m)
     (n31 m * vx v + n32 m * vy v + n33 m * vz v + n34 m)"

definition transformDirection :: "vec3 \<Rightarrow> matrix4 \<Rightarrow> vec3" where
  "transformDirection v m = normalize (Vector3
     (n11 m * vx v + n12 m * vy v + n13 m * vz v)
     (n21 m * vx v + n22 m * vy v + n23 m * vz v)
     (n31 m * vx v + n32 m * vy v + n33 m * vz v))"

definition getMaxScaleOnAxis :: "matrix4 \<Rightarrow> real" where
  "getMaxScaleOnAxis m =
     (let scaleXSq = n11 m * n11 m + n21 m * n21 m + n31 m * n31 m;
          scaleYSq = n12 m * n12 m + n22 m * n22 m + n32 m * n32 m;
          scaleZSq = n13 m * n13 m + n23 m * n23 m + n33 m * n33 m
      in sqrt (max scaleXSq (max scaleYSq scaleZSq)))"

definition determinant :: "matrix4 \<Rightarrow> real" where
  "determinant m =
       n11 m * (n22 m * n33 m - n23 m * n32 m)
     - n12 m * (n21 m * n33 m - n23 m * n31 m)
     + n13 m * (n21 m * n32 m - n22 m * n31 m)"

definition getInverse :: "matrix4 \<Rightarrow> matrix4 option" where
  \<comment> \<open>The adjugate over the determinant. For a determinant of 0 the library (r117 and
      later) returns the zero matrix; applied to a ray it gives an origin of \<open>NaN\<close>
      (\<open>0 * (1 / 0)\<close>). That matrix is \<open>None\<close> here.\<close>
  "getInverse m =
     (let det = determinant m in
      if det = 0 then None
      else
        let i11 = (n22 m * n33 m - n23 m * n32 m) / det;
            i12 = (n13 m * n32 m - n12 m * n33 m) / det;
            i13 = (n12 m * n23 m - n13 m * n22 m) / det;
            i21 = (n23 m * n31 m - n21 m * n33 m) / det;
            i22 = (n11 m * n33 m - n13 m * n31 m) / det;
            i23 = (n13 m * n21 m - n11 m * n23 m) / det;
            i31 = (n21 m * n32 m - n22 m * n31 m) / det;
            i32 = (n12 m * n31 m - n11 m * n32 m) / det;
            i33 = (n11 m * n22 m - n12 m * n21 m) / det
        in Some (Matrix4
             i11 i12 i13 (- (i11 * n14 m + i12 * n24 m + i13 * n34 m))
             i21 i22 i23 (- (i21 * n14 m + i22 * n24 m + i23 * n34 m))
             i31 i32 i33 (- (i31 * n14 m + i32 * n24 m + i33 * n34 m))))"

section \<open>three.js: Box3 and Sphere\<close>

text \<open>
  \<open>makeEmpty\<close> sets the box to \<open>(+Infinity, -Infinity)\<close>; translating that box by a finite
  offset, or uniting it with another box, behaves as the empty box does. A box that has
  absorbed a \<open>NaN\<close> point keeps \<open>NaN\<close> bounds whatever is added later
  (\<open>Math.min(x, NaN)\<close> is \<open>NaN\<close>).
\<close>

datatype box3 = EmptyBox | Box3 (bmin: vec3) (bmax: vec3) | NaNBox

datatype sphere = Sphere (center: vec3) (radius: real)

fun expandByPoint :: "box3 \<Rightarrow> vec3 option \<Rightarrow> box3" where
  "expandByPoint b None = NaNBox"
| "expandByPoint NaNBox (Some p) = NaNBox"
| "expandByPoint EmptyBox (Some p) = Box3 p p"
| "expandByPoint (Box3 lo hi) (Some p) = Box3 (v_min lo p) (v_max hi p)"

fun translate :: "box3 \<Rightarrow> vec3 option \<Rightarrow> box3" where
  "translate b None = NaNBox"
| "translate NaNBox (Some off) = NaNBox"
| "translate EmptyBox (Some off) = EmptyBox"
| "translate (Box3 lo hi) (Some off) = Box3 (v_add lo off) (v_add hi off)"

fun union_box :: "box3 \<Rightarrow> box3 \<Rightarrow> box3" where
  "union_box NaNBox b = NaNBox"
| "union_box a NaNBox = NaNBox"
| "union_box EmptyBox b = b"
| "union_box a EmptyBox = a"
| "union_box (Box3 lo hi) (Box3 lo' hi') = Box3 (v_min lo lo') (v_max hi hi')"

fun getCenter :: "box3 \<Rightarrow> vec3 option" where
  \<comment> \<open>\<open>isEmpty() ? (0, 0, 0) : (min + max) * 0.5\<close>\<close>
  "getCenter EmptyBox = Some (Vector3 0 0 0)"
| "getCenter (Box3 lo hi) = Some (multiplyScalar (v_add lo hi) (1 / 2))"
| "getCenter NaNBox = None"

fun getSize :: "box3 \<Rightarrow> vec3 option" where
  "getSize EmptyBox = Some (Vector3 0 0 0)"
| "getSize (Box3 lo hi) = Some (v_sub hi lo)"
| "getSize NaNBox = None"

definition getBoundingSphere :: "box3 \<Rightarrow> sphere option" where
  \<comment> \<open>Centre of the box, half of its diagonal. \<open>None\<close> is the sphere of a \<open>NaN\<close> box.\<close>
  "getBoundingSphere b =
     (case (getCenter b, getSize b) of
        (Some c, Some s) \<Rightarrow> Some (Sphere c (v_length s * (1 / 2)))
      | _ \<Rightarrow> None)"

definition sphere_applyMatrix4 :: "sphere \<Rightarrow> matrix4 \<Rightarrow> sphere" where
  "sphere_applyMatrix4 s m =
     Sphere (applyMatrix4 (center s) m) (radius s * getMaxScaleOnAxis m)"

section \<open>Vertex attributes\<close>

text \<open>
  Modelled from the spec: \<open>DisplacedBufferAttribute\<close> (the file is not part of the
  sources at hand). Section 4.1 gives its contract: the displaced position of vertex
  \<open>i\<close> is \<open>basePosition + baseNormal * sample(displacementSource, baseUV(i))\<close>. The
  displacement source is the sampling function itself.
\<close>

type_synonym data_texture = "real \<times> real \<Rightarrow> real"

datatype position_attr =
    BufferAttribute "vec3 list"
  | DisplacedBufferAttribute position_attr "vec3 list" "(real \<times> real) list" data_texture

fun getXYZ :: "position_attr \<Rightarrow> nat \<Rightarrow> vec3 option" where
  "getXYZ (BufferAttribute ps) i = js_nth ps i"
| "getXYZ (DisplacedBufferAttribute base normals uvs tex) i =
     (case (getXYZ base i, js_nth normals i, js_nth uvs i) of
        (Some p, Some n, Some t) \<Rightarrow> Some (v_add p (multiplyScalar n (tex t)))
      | _ \<Rightarrow> None)"

definition fromBufferAttribute :: "position_attr \<Rightarrow> nat option \<Rightarrow> vec3 option" where
  \<comment> \<open>\<open>vertex.fromBufferAttribute(position, indices[i])\<close>; an \<open>undefined\<close> index reads
      \<open>undefined\<close> coordinates.\<close>
  "fromBufferAttribute attr idx = (case idx of None \<Rightarrow> None | Some a \<Rightarrow> getXYZ attr a)"

section \<open>computeBoundingSphere\<close>

record displacement_range =
  range_min :: real
  range_max :: real

function expandLoop :: "position_attr \<Rightarrow> nat list \<Rightarrow> nat \<Rightarrow> nat \<Rightarrow> box3 \<Rightarrow> box3" where
  \<comment> \<open>\<open>for (let i = beginIdx; i < endIdx; i += step) tmpBox1.expandByPoint(...)\<close>\<close>
  "expandLoop position indices i endIdx box =
     (if i < endIdx
      then expandLoop position indices (i + 6) endIdx
             (expandByPoint box (fromBufferAttribute position (js_nth indices i)))
      else box)"
  by pat_completeness auto
termination
  by (relation "measure (\<lambda>(position, indices, i, endIdx, box). endIdx - i)") auto

definition js_max :: "real option \<Rightarrow> real option \<Rightarrow> real option" where
  \<comment> \<open>\<open>Math.max\<close>, \<open>NaN\<close> if an argument is.\<close>
  "js_max a b = (case (a, b) of (Some u, Some v) \<Rightarrow> Some (max u v) | _ \<Rightarrow> None)"

function radiusLoop ::
  "position_attr \<Rightarrow> nat list \<Rightarrow> vec3 \<Rightarrow> nat \<Rightarrow> nat \<Rightarrow> real option \<Rightarrow> real option" where
  \<comment> \<open>The second loop: \<open>maxRadiusSq = Math.max(maxRadiusSq, center.distanceToSquared(vertex))\<close>\<close>
  "radiusLoop position indices centre i endIdx maxRadiusSq =
     (if i < endIdx
      then radiusLoop position indices centre (i + 6) endIdx
             (js_max maxRadiusSq
                (map_option (distanceToSquared centre)
                   (fromBufferAttribute position (js_nth indices i))))
      else maxRadiusSq)"
  by pat_completeness auto
termination
  by (relation "measure (\<lambda>(position, indices, c, i, endIdx, m). endIdx - i)") auto

declare expandLoop.simps [simp del]
declare radiusLoop.simps [simp del]

definition computeBoundingSphere ::
  "position_attr \<Rightarrow> nat list \<Rightarrow> nat \<Rightarrow> nat \<Rightarrow> vec3 option \<Rightarrow> displacement_range option
     \<Rightarrow> sphere option" where
  \<comment> \<open>\<open>normal\<close> is \<open>tmpNormal\<close>, \<open>NaN\<close> when it was read from an empty attribute. The result
      \<open>None\<close> is a sphere with \<open>NaN\<close> centre or radius.\<close>
  "computeBoundingSphere position indices beginIdx endIdx normal displacementRange =
     (let tmpBox1 = expandLoop position indices beginIdx endIdx EmptyBox in
      case displacementRange of
        Some dr \<Rightarrow>
          (let minDispl = map_option (\<lambda>n. multiplyScalar n (range_min dr)) normal;
               maxDispl = map_option (\<lambda>n. multiplyScalar n (range_max dr)) normal;
               tmpBox2 = union_box (translate tmpBox1 minDispl) (translate tmpBox1 maxDispl)
           in getBoundingSphere tmpBox2)
      | None \<Rightarrow>
          (case getCenter tmpBox1 of
             None \<Rightarrow> None
           | Some centre \<Rightarrow>
               (case radiusLoop position indices centre beginIdx endIdx (Some 0) of
                  None \<Rightarrow> None
                | Some maxRadiusSq \<Rightarrow> Some (Sphere centre (sqrt maxRadiusSq)))))"

section \<open>three.js: Ray, Plane, Line3\<close>

datatype ray = Ray (origin: vec3) (direction: vec3)

datatype plane = Plane (pl_normal: vec3) (pl_constant: real)

datatype line3 = Line3 (l_start: vec3) (l_end: vec3)

definition ray_at :: "ray \<Rightarrow> real \<Rightarrow> vec3" where
  "ray_at r t = v_add (multiplyScalar (direction r) t) (origin r)"

definition ray_applyMatrix4 :: "ray \<Rightarrow> matrix4 \<Rightarrow> ray" where
  "ray_applyMatrix4 r m = Ray (applyMatrix4 (origin r) m) (transformDirection (direction r) m)"

definition distanceSqToPoint :: "ray \<Rightarrow> vec3 \<Rightarrow> real" where
  "distanceSqToPoint r p =
     (let directionDistance = v_dot (v_sub p (origin r)) (direction r) in
      if directionDistance < 0 then distanceToSquared (origin r) p
      else distanceToSquared (v_add (multiplyScalar (direction r) directionDistance) (origin r)) p)"

definition intersectsSphere :: "ray \<Rightarrow> sphere \<Rightarrow> bool" where
  "intersectsSphere r s \<longleftrightarrow> distanceSqToPoint r (center s) \<le> radius s * radius s"

definition setFromCoplanarPoints :: "vec3 \<Rightarrow> vec3 \<Rightarrow> vec3 \<Rightarrow> plane" where
  \<comment> \<open>The normal of three collinear points is the zero vector, left as it is by
      \<open>normalize\<close>.\<close>
  "setFromCoplanarPoints a b c =
     (let n = normalize (v_cross (v_sub c b) (v_sub a b)) in Plane n (- v_dot a n))"

definition distanceToPoint :: "plane \<Rightarrow> vec3 \<Rightarrow> real" where
  "distanceToPoint pl p = v_dot (pl_normal pl) p + pl_constant pl"

definition distanceToPlane :: "ray \<Rightarrow> plane \<Rightarrow> real option" where
  \<comment> \<open>\<open>None\<close> is the library's \<open>null\<close>.\<close>
  "distanceToPlane r pl =
     (let denominator = v_dot (pl_normal pl) (direction r) in
      if denominator = 0
      then (if distanceToPoint pl (origin r) = 0 then Some 0 else None)
      else
        let t = - (v_dot (origin r) (pl_normal pl) + pl_constant pl) / denominator
        in if t \<ge> 0 then Some t else None)"

definition intersectPlane :: "ray \<Rightarrow> plane \<Rightarrow> vec3 option" where
  "intersectPlane r pl = map_option (ray_at r) (distanceToPlane r pl)"

definition closestPointToPointParameter :: "line3 \<Rightarrow> vec3 \<Rightarrow> bool \<Rightarrow> real option" where
  \<comment> \<open>\<open>t = startEnd_startP / startEnd2\<close>, clamped to \<open>[0, 1]\<close>. When the line has no
      length both are 0, the quotient is \<open>NaN\<close> and so is its clamp
      (\<open>Math.max(0, Math.min(1, NaN))\<close>): \<open>None\<close>.\<close>
  "closestPointToPointParameter l p clampToLine =
     (let startP = v_sub p (l_start l);
          startEnd = v_sub (l_end l) (l_start l);
          startEnd2 = v_dot startEnd startEnd;
          startEnd_startP = v_dot startEnd startP
      in if startEnd2 = 0 then None
         else
           let t = startEnd_startP / startEnd2
           in Some (if clampToLine then max 0 (min 1 t) else t))"

definition closestPointToPoint :: "line3 \<Rightarrow> vec3 \<Rightarrow> bool \<Rightarrow> vec3 option" where
  "closestPointToPoint l p clampToLine =
     map_option (\<lambda>t. v_add (multiplyScalar (v_sub (l_end l) (l_start l)) t) (l_start l))
       (closestPointToPointParameter l p clampToLine)"

definition line3_applyMatrix4 :: "line3 \<Rightarrow> matrix4 \<Rightarrow> line3" where
  "line3_applyMatrix4 l m = Line3 (applyMatrix4 (l_start l) m) (applyMatrix4 (l_end l) m)"

section \<open>Geometries, materials and the mesh\<close>

datatype debug_entry = DebugEntry (d_line: line3) (d_ray: ray) (d_length: "real option")

text \<open>
  The fields of a \<open>THREE.BufferGeometry\<close> that the mesh reads. The four attributes are
  taken to be present (the source casts them without a check); an attribute with too
  few entries reads \<open>undefined\<close>. \<open>userData_debug\<close> is \<open>geometry.userData.debug\<close>, \<open>None\<close>
  until it is first assigned.
\<close>

record buffer_geometry =
  index :: "nat list option"
  position :: position_attr
  normal :: "vec3 list"
  uv :: "(real \<times> real) list"
  bitangent :: "vec3 list"
  userData_debug :: "debug_entry list option"

text \<open>
  The mesh's \<open>geometry\<close> field holds a reference. Two kinds of object can be behind it:
  a geometry owned elsewhere, kept in the store \<open>geometries\<close> under its address, or the
  object in the mesh's own field \<open>m_displacedGeometry\<close>. \<open>DisplacedRef\<close> is that second
  reference, so \<open>this.geometry === this.m_displacedGeometry\<close> is
  \<open>geometry this = DisplacedRef\<close> when the field is set.
\<close>

datatype geometry_ref = GeometryRef nat | DisplacedRef

datatype geometry_obj = Geometry | BufferGeometry buffer_geometry

text \<open>
  Modelled from the spec: \<open>DisplacedBufferGeometry\<close> (the file is not part of the
  sources at hand). Section 4.2: the view is bound by its constructor and rebound by
  \<open>reset(baseMesh, displacementSource, displacementRange)\<close>; its index buffer is the
  base mesh's, its positions are the displaced positions of section 4.1, it exposes
  \<open>originalGeometry\<close> and \<open>displacementRange\<close>, and binding it does not change the base
  mesh. It is a \<open>BufferGeometry\<close> itself: \<open>buffer\<close> holds the inherited fields.
\<close>

record displaced_buffer_geometry =
  buffer :: buffer_geometry
  originalGeometry :: geometry_ref
  displacementRange :: displacement_range

definition getDisplacedPositionAttribute :: "buffer_geometry \<Rightarrow> data_texture \<Rightarrow> position_attr" where
  \<comment> \<open>The attribute object is shared by all meshes and rebound on each call; what it
      is bound to is all that a single call can observe.\<close>
  "getDisplacedPositionAttribute g dmap =
     DisplacedBufferAttribute (position g) (normal g) (uv g) dmap"

definition newDisplacedBufferGeometry ::
  "geometry_ref \<Rightarrow> buffer_geometry \<Rightarrow> displacement_range \<Rightarrow> position_attr
     \<Rightarrow> displaced_buffer_geometry" where
  \<comment> \<open>Modelled from the spec: the constructor of \<open>DisplacedBufferGeometry\<close>, section 4.2.
      The new object has no \<open>userData.debug\<close> yet.\<close>
  "newDisplacedBufferGeometry gref g dr displacedPositions =
     \<lparr>buffer = g\<lparr>position := displacedPositions, userData_debug := None\<rparr>,
      originalGeometry = gref, displacementRange = dr\<rparr>"

definition reset ::
  "displaced_buffer_geometry \<Rightarrow> geometry_ref \<Rightarrow> buffer_geometry \<Rightarrow> data_texture
     \<Rightarrow> displacement_range \<Rightarrow> displaced_buffer_geometry" where
  \<comment> \<open>Modelled from the spec: \<open>DisplacedBufferGeometry.reset\<close>, section 4.2. The object
      keeps its \<open>userData\<close>.\<close>
  "reset d gref g dmap dr =
     \<lparr>buffer = g\<lparr>position := DisplacedBufferAttribute (position g) (normal g) (uv g) dmap,
                  userData_debug := userData_debug (buffer d)\<rparr>,
      originalGeometry = gref, displacementRange = dr\<rparr>"

text \<open>
  Modelled from the spec: the material and \<open>hasDisplacementFeature\<close> (the materials
  package is not part of the sources at hand). Section 6: a capability "supports
  displacement", a displacement source, a line width and an outline width.
  \<open>displacementFeature\<close> is \<open>hasDisplacementFeature(material)\<close>; \<open>displacementMap\<close> is \<open>Some\<close>
  when the map is a \<open>THREE.DataTexture\<close>. \<open>this.material\<close> is one material or an array of
  them; the array is taken to have a first element.
\<close>

record material =
  displacementFeature :: bool
  displacementMap :: "data_texture option"
  lineWidth :: real
  outlineWidth :: real

datatype material_slot = Single material | Multi material "material list"

record feature =
  starts :: "nat list option"
  boundingVolumes :: "sphere option list option"

record solid_line_mesh =
  mesh_id :: nat
  material :: material_slot
  geometry :: geometry_ref
  m_displacedGeometry :: "displaced_buffer_geometry option"
  m_getDisplacementRange :: displacement_range
  matrixWorld :: matrix4
  scale :: vec3
  userData_feature :: "feature option"
  geometries :: "nat \<Rightarrow> geometry_obj"

record raycaster =
  ray :: ray
  near :: real
  far :: "real option"

text \<open>
  A \<open>THREE.Intersection\<close> as the mesh fills it: \<open>face\<close> is always \<open>null\<close> and \<open>faceIndex\<close>
  \<open>undefined\<close>; \<open>object\<close> is the mesh, named by its id. \<open>far\<close> of the raycaster is \<open>None\<close>
  for \<open>Infinity\<close>, the library's default.
\<close>

datatype intersection =
  Intersection (hit_distance: real) (hit_point: vec3) (hit_index: nat) (hit_object: nat)

datatype error = AssertionFailed | TypeError

datatype completion = Returns | Throws error

definition harp_assert :: "bool \<Rightarrow> error + unit" where
  \<comment> \<open>Modelled from the spec: \<open>assert\<close> of the utilities package (not part of the sources
      at hand). Sections 4.4 and 7: an abort-style assertion that fails the call.\<close>
  "harp_assert condition = (if condition then Inr () else Inl AssertionFailed)"

definition asBufferGeometry :: "solid_line_mesh \<Rightarrow> buffer_geometry option" where
  \<comment> \<open>\<open>this.geometry\<close> when it is an \<open>instanceof THREE.BufferGeometry\<close>.\<close>
  "asBufferGeometry this =
     (case geometry this of
        GeometryRef a \<Rightarrow>
          (case geometries this a of Geometry \<Rightarrow> None | BufferGeometry g \<Rightarrow> Some g)
      | DisplacedRef \<Rightarrow> map_option buffer (m_displacedGeometry this))"

definition set_debug :: "debug_entry list \<Rightarrow> solid_line_mesh \<Rightarrow> solid_line_mesh" where
  \<comment> \<open>Stores the contents of \<open>geometry.userData.debug\<close> in the object behind
      \<open>this.geometry\<close>.\<close>
  "set_debug dbg this =
     (case geometry this of
        GeometryRef a \<Rightarrow>
          (case geometries this a of
             Geometry \<Rightarrow> this
           | BufferGeometry g \<Rightarrow>
               this\<lparr>geometries := (geometries this)(a := BufferGeometry (g\<lparr>userData_debug := Some dbg\<rparr>))\<rparr>)
      | DisplacedRef \<Rightarrow>
          (case m_displacedGeometry this of
             None \<Rightarrow> this
           | Some d \<Rightarrow>
               this\<lparr>m_displacedGeometry :=
                      Some (d\<lparr>buffer := (buffer d)\<lparr>userData_debug := Some dbg\<rparr>\<rparr>)\<rparr>))"

section \<open>SolidLineMesh\<close>

text \<open>
  The module's scratch objects (\<open>tmpVector1\<close> ... \<open>tmpSphere\<close>) are written before they
  are read in every function, so they are local values here. \<open>tmpRay\<close>, written by
  \<open>raycastImpl\<close> and read by \<open>featureIntersect\<close>, is passed along; it is \<open>None\<close> when the
  inverse of \<open>matrixWorld\<close> is the zero matrix: the ray then has a \<open>NaN\<close> origin and meets
  no plane. \<open>featureIntersect\<close> is private and reads \<open>this.geometry\<close> and its index again;
  they are the objects \<open>raycastImpl\<close> has checked, and are passed along as well.

  \<open>geometry.userData.debug\<close> and \<open>this.userData.feature.boundingVolumes\<close> are arrays that
  the loops push to. Their contents are threaded through the loops and stored in the
  mesh when \<open>raycastImpl\<close> returns; nothing reads them in between.
\<close>

definition segmentHit ::
  "ray option \<Rightarrow> solid_line_mesh \<Rightarrow> raycaster \<Rightarrow> real option \<Rightarrow> real option
     \<Rightarrow> buffer_geometry \<Rightarrow> nat list \<Rightarrow> nat \<Rightarrow> (intersection \<times> debug_entry) option" where
  \<comment> \<open>The body of the segment loop of \<open>featureIntersect\<close>: \<open>None\<close> for each \<open>continue\<close>,
      otherwise the two objects that are pushed. A \<open>NaN\<close> vertex or extrusion gives a
      \<open>NaN\<close> plane, which no ray intersects.\<close>
  "segmentHit tmpRay this rc threshold localThresholdSq g indices i =
     (let a = js_nth indices i;
          b = js_nth indices (i + 2);
          vStart = fromBufferAttribute (position g) a;
          vEnd = fromBufferAttribute (position g) b;
          vExtrusion = (case a of None \<Rightarrow> None | Some a' \<Rightarrow> js_nth (bitangent g) a')
      in case (vStart, vEnd, vExtrusion, tmpRay) of
           (Some s, Some e, Some ext, Some r) \<Rightarrow>
             (let pl = setFromCoplanarPoints s (v_add s ext) e in
              case intersectPlane r pl of
                None \<Rightarrow> None
              | Some interPlane \<Rightarrow>
                  (let line = Line3 s e;
                       closestCenterLinePoint = closestPointToPoint line interPlane True;
                       distSq = map_option (distanceToSquared interPlane) closestCenterLinePoint
                   in if js_gt distSq localThresholdSq then None
                      else
                        let interLineWorld = applyMatrix4 interPlane (matrixWorld this);
                            distance = distanceTo (origin (ray rc)) interLineWorld
                        in if distance < near rc \<or> js_gt (Some distance) (far rc) then None
                           else Some
                             (Intersection distance interLineWorld i (mesh_id this),
                              DebugEntry (line3_applyMatrix4 line (matrixWorld this))
                                (Ray interLineWorld (transformDirection ext (matrixWorld this)))
                                threshold)))
         | _ \<Rightarrow> None)"

function segmentLoop ::
  "ray option \<Rightarrow> solid_line_mesh \<Rightarrow> raycaster \<Rightarrow> real option \<Rightarrow> real option
     \<Rightarrow> buffer_geometry \<Rightarrow> nat list \<Rightarrow> nat \<Rightarrow> nat
     \<Rightarrow> intersection list \<times> debug_entry list \<Rightarrow> intersection list \<times> debug_entry list" where
  \<comment> \<open>\<open>for (let i = beginIdx; i < endIdx; i += step)\<close> of \<open>featureIntersect\<close>\<close>
  "segmentLoop tmpRay this rc threshold localThresholdSq g indices i endIdx acc =
     (if i < endIdx
      then segmentLoop tmpRay this rc threshold localThresholdSq g indices (i + 6) endIdx
             (case segmentHit tmpRay this rc threshold localThresholdSq g indices i of
                None \<Rightarrow> acc
              | Some (hit, dbg) \<Rightarrow> (fst acc @ [hit], snd acc @ [dbg]))
      else acc)"
  by pat_completeness auto
termination
  by (relation "measure (\<lambda>(tmpRay, this, rc, t, l, g, indices, i, endIdx, acc). endIdx - i)") auto

declare segmentLoop.simps [simp del]

definition featureIntersect ::
  "ray option \<Rightarrow> solid_line_mesh \<Rightarrow> raycaster \<Rightarrow> real option \<Rightarrow> real option
     \<Rightarrow> buffer_geometry \<Rightarrow> nat list \<Rightarrow> nat \<Rightarrow> nat \<Rightarrow> sphere option
     \<Rightarrow> intersection list \<times> debug_entry list \<Rightarrow> intersection list \<times> debug_entry list" where
  \<comment> \<open>A \<open>NaN\<close> sphere or a \<open>NaN\<close> threshold makes \<open>intersectsSphere\<close> false.\<close>
  "featureIntersect tmpRay this rc threshold localThresholdSq g indices beginIdx endIdx bSphere acc =
     (case (bSphere, threshold) of
        (Some bs, Some thr) \<Rightarrow>
          (let s1 = sphere_applyMatrix4 bs (matrixWorld this);
               tmpSphere = Sphere (center s1) (radius s1 + thr)
           in if \<not> intersectsSphere (ray rc) tmpSphere then acc
              else segmentLoop tmpRay this rc threshold localThresholdSq g indices
                     beginIdx endIdx acc)
      | _ \<Rightarrow> acc)"

function featureLoop ::
  "ray option \<Rightarrow> solid_line_mesh \<Rightarrow> raycaster \<Rightarrow> real option \<Rightarrow> real option
     \<Rightarrow> buffer_geometry \<Rightarrow> nat list \<Rightarrow> nat list \<Rightarrow> vec3 option \<Rightarrow> displacement_range option
     \<Rightarrow> nat \<Rightarrow> sphere option list \<times> intersection list \<times> debug_entry list
     \<Rightarrow> sphere option list \<times> intersection list \<times> debug_entry list" where
  \<comment> \<open>\<open>for (let i = 0, length = featureStarts.length; i < length; ++i)\<close> of \<open>raycastImpl\<close>.
      \<open>bVolumes[i]\<close> is defined whenever the loop starts at 0, see
      \<open>featureLoop_cache_length\<close>; a missing entry is read as no sphere.\<close>
  "featureLoop tmpRay this rc threshold localThresholdSq g indices featureStarts tmpNormal dr i st =
     (if i < length featureStarts
      then
        (let bVolumes = fst st;
             beginIdx = featureStarts ! i;
             endIdx = (if i = length featureStarts - 1 then length indices
                       else featureStarts ! (i + 1));
             bVolumes' = (if i \<ge> length bVolumes
                          then bVolumes @ [computeBoundingSphere (position g) indices
                                             beginIdx endIdx tmpNormal dr]
                          else bVolumes);
             bSphere = (case js_nth bVolumes' i of None \<Rightarrow> None | Some sp \<Rightarrow> sp)
         in featureLoop tmpRay this rc threshold localThresholdSq g indices featureStarts
              tmpNormal dr (i + 1)
              (bVolumes',
               featureIntersect tmpRay this rc threshold localThresholdSq g indices
                 beginIdx endIdx bSphere (snd st)))
      else st)"
  by pat_completeness auto
termination
  by (relation "measure (\<lambda>(tmpRay, this, rc, t, l, g, indices, fs, n, dr, i, st). length fs - i)")
     auto

declare featureLoop.simps [simp del]

definition js_div :: "real option \<Rightarrow> real \<Rightarrow> real option" where
  \<comment> \<open>\<open>a / b\<close>: \<open>NaN\<close> for a \<open>NaN\<close> dividend, \<open>NaN\<close> or an infinity for a zero divisor.\<close>
  "js_div a b = (case a of None \<Rightarrow> None | Some u \<Rightarrow> if b = 0 then None else Some (u / b))"

definition localThreshold :: "real option \<Rightarrow> vec3 \<Rightarrow> real option" where
  \<comment> \<open>\<open>threshold / ((this.scale.x + this.scale.y + this.scale.z) / 3)\<close>\<close>
  "localThreshold threshold sc = js_div threshold ((vx sc + vy sc + vz sc) / 3)"

definition raycastImpl ::
  "raycaster \<Rightarrow> intersection list \<Rightarrow> solid_line_mesh
     \<Rightarrow> completion \<times> intersection list \<times> solid_line_mesh" where
  \<comment> \<open>\<open>this.material as SolidLineMaterial\<close> is not checked: on an array of materials
      both widths are \<open>undefined\<close> and the threshold is \<open>NaN\<close>. \<open>localThresholdSq\<close> is
      \<open>None\<close> when it is \<open>NaN\<close> or \<open>+Infinity\<close>; no squared distance exceeds either.\<close>
  "raycastImpl rc intersects this =
     (let threshold = (case material this of
                         Single m \<Rightarrow> Some (lineWidth m + outlineWidth m)
                       | Multi m ms \<Rightarrow> None);
          tmpInverseMatrix = getInverse (matrixWorld this);
          tmpRay = map_option (ray_applyMatrix4 (ray rc)) tmpInverseMatrix;
          localThresholdSq =
            map_option (\<lambda>t. t * t) (localThreshold threshold (scale this))
      in case asBufferGeometry this of
           None \<Rightarrow>
             (case harp_assert False of
                Inl e \<Rightarrow> (Throws e, intersects, this)
              | Inr u \<Rightarrow> (Returns, intersects, this))
         | Some g \<Rightarrow>
             (case index g of
                None \<Rightarrow>
                  (case harp_assert False of
                     Inl e \<Rightarrow> (Throws e, intersects, this)
                   | Inr u \<Rightarrow> (Returns, intersects, this))
              | Some indices \<Rightarrow>
                  (let feature0 = (case userData_feature this of
                                     None \<Rightarrow> \<lparr>starts = None, boundingVolumes = None\<rparr>
                                   | Some f \<Rightarrow> f);
                       featureStarts = (case starts feature0 of None \<Rightarrow> [0] | Some fs \<Rightarrow> fs);
                       bVolumes0 = (case boundingVolumes feature0 of None \<Rightarrow> [] | Some bv \<Rightarrow> bv);
                       displaced = (geometry this = DisplacedRef);
                       tmpNormal = js_nth (normal g) 0;
                       dr = (if displaced
                             then map_option displacementRange (m_displacedGeometry this)
                             else None);
                       res = featureLoop tmpRay this rc threshold localThresholdSq g indices
                               featureStarts tmpNormal dr 0 (bVolumes0, intersects, [])
                   in (Returns, fst (snd res),
                       set_debug (snd (snd res))
                         (this\<lparr>userData_feature :=
                                 Some (feature0\<lparr>boundingVolumes := Some (fst res)\<rparr>)\<rparr>)))))"

definition raycast ::
  "raycaster \<Rightarrow> intersection list \<Rightarrow> solid_line_mesh
     \<Rightarrow> completion \<times> intersection list \<times> solid_line_mesh" where
  \<comment> \<open>The last assignment is not reached when \<open>raycastImpl\<close> throws: there is no
      \<open>try\<close>/\<open>finally\<close>.\<close>
  "raycast rc intersects this =
     (let mat = (case material this of Multi m ms \<Rightarrow> m | Single m \<Rightarrow> m) in
      case asBufferGeometry this of
        None \<Rightarrow> raycastImpl rc intersects this
      | Some g \<Rightarrow>
          if \<not> displacementFeature mat then raycastImpl rc intersects this
          else
            (case displacementMap mat of
               None \<Rightarrow> raycastImpl rc intersects this
             | Some dmap \<Rightarrow>
                 (let dr = m_getDisplacementRange this;
                      this1 = (case m_displacedGeometry this of
                                 Some d \<Rightarrow>
                                   this\<lparr>m_displacedGeometry :=
                                          Some (reset d (geometry this) g dmap dr)\<rparr>
                               | None \<Rightarrow>
                                   this\<lparr>m_displacedGeometry :=
                                          Some (newDisplacedBufferGeometry (geometry this) g dr
                                                  (getDisplacedPositionAttribute g dmap))\<rparr>);
                      this2 = this1\<lparr>geometry := DisplacedRef\<rparr>;
                      res = raycastImpl rc intersects this2
                  in case fst res of
                       Throws e \<Rightarrow> res
                     | Returns \<Rightarrow>
                         (case m_displacedGeometry (snd (snd res)) of
                            None \<Rightarrow> (Throws TypeError, fst (snd res), snd (snd res))
                          | Some d \<Rightarrow>
                              (Returns, fst (snd res),
                               (snd (snd res))\<lparr>geometry := originalGeometry d\<rparr>)))))"

section \<open>Notions used in the statements\<close>

definition takesDisplacedPath :: "solid_line_mesh \<Rightarrow> bool" where
  \<comment> \<open>The condition under which \<open>raycast\<close> does not take its first branch.\<close>
  "takesDisplacedPath this \<longleftrightarrow>
     (let mat = (case material this of Multi m ms \<Rightarrow> m | Single m \<Rightarrow> m)
      in asBufferGeometry this \<noteq> None \<and> displacementFeature mat \<and> displacementMap mat \<noteq> None)"

definition displacedState :: "solid_line_mesh \<Rightarrow> buffer_geometry \<Rightarrow> data_texture \<Rightarrow> solid_line_mesh" where
  \<comment> \<open>The mesh as \<open>raycast\<close> hands it to \<open>raycastImpl\<close> on its second path: the view
      is built or rebound over the active geometry \<open>g\<close>, and is the active geometry.\<close>
  "displacedState this g dmap =
     this\<lparr>m_displacedGeometry :=
            Some (case m_displacedGeometry this of
                    Some d \<Rightarrow> reset d (geometry this) g dmap (m_getDisplacementRange this)
                  | None \<Rightarrow>
                      newDisplacedBufferGeometry (geometry this) g (m_getDisplacementRange this)
                        (getDisplacedPositionAttribute g dmap)),
          geometry := DisplacedRef\<rparr>"

function sampleIndices :: "nat \<Rightarrow> nat \<Rightarrow> nat list" where
  \<comment> \<open>The values of \<open>i\<close> in \<open>for (let i = beginIdx; i < endIdx; i += 6)\<close>.\<close>
  "sampleIndices i endIdx = (if i < endIdx then i # sampleIndices (i + 6) endIdx else [])"
  by pat_completeness auto
termination
  by (relation "measure (\<lambda>(i, endIdx). endIdx - i)") auto

declare sampleIndices.simps [simp del]

definition sampledVertices :: "position_attr \<Rightarrow> nat list \<Rightarrow> nat \<Rightarrow> nat \<Rightarrow> vec3 option list" where
  \<comment> \<open>The vertices a feature's bounding sphere is computed from.\<close>
  "sampledVertices pos ind beginIdx endIdx =
     map (\<lambda>i. fromBufferAttribute pos (js_nth ind i)) (sampleIndices beginIdx endIdx)"

definition featureHits ::
  "ray option \<Rightarrow> solid_line_mesh \<Rightarrow> raycaster \<Rightarrow> real option \<Rightarrow> real option
     \<Rightarrow> buffer_geometry \<Rightarrow> nat list \<Rightarrow> nat \<Rightarrow> nat \<Rightarrow> sphere option
     \<Rightarrow> (intersection \<times> debug_entry) list" where
  \<comment> \<open>What one call of \<open>featureIntersect\<close> pushes: nothing when the sphere test fails,
      otherwise what the segments of the feature give, in their order.\<close>
  "featureHits tr this rc th lt g ind b e bSphere =
     (case (bSphere, th) of
        (Some bs, Some thr) \<Rightarrow>
          if intersectsSphere (ray rc)
               (Sphere (center (sphere_applyMatrix4 bs (matrixWorld this)))
                  (radius (sphere_applyMatrix4 bs (matrixWorld this)) + thr))
          then List.map_filter (segmentHit tr this rc th lt g ind) (sampleIndices b e)
          else []
      | _ \<Rightarrow> [])"

definition featureEnd :: "nat list \<Rightarrow> nat list \<Rightarrow> nat \<Rightarrow> nat" where
  \<comment> \<open>\<open>endIdx\<close> of feature \<open>j\<close>.\<close>
  "featureEnd fs ind j = (if j = length fs - 1 then length ind else fs ! (j + 1))"

definition featureSphere ::
  "position_attr \<Rightarrow> nat list \<Rightarrow> nat list \<Rightarrow> vec3 option \<Rightarrow> displacement_range option
     \<Rightarrow> nat \<Rightarrow> sphere option" where
  \<comment> \<open>The sphere \<open>raycastImpl\<close> computes for feature \<open>j\<close> when the cache has none.\<close>
  "featureSphere pos ind fs n dr j =
     computeBoundingSphere pos ind (fs ! j) (featureEnd fs ind j) n dr"

definition cachedStarts :: "solid_line_mesh \<Rightarrow> nat list option" where
  \<comment> \<open>\<open>this.userData.feature.starts\<close>, if there is any.\<close>
  "cachedStarts this = (case userData_feature this of None \<Rightarrow> None | Some f \<Rightarrow> starts f)"

definition featureStartsOf :: "solid_line_mesh \<Rightarrow> nat list" where
  \<comment> \<open>\<open>this.userData.feature.starts ?? [0]\<close>\<close>
  "featureStartsOf this = (case cachedStarts this of None \<Rightarrow> [0] | Some fs \<Rightarrow> fs)"

definition cachedVolumes :: "solid_line_mesh \<Rightarrow> sphere option list" where
  \<comment> \<open>The cache of bounding volumes as a call finds it, empty when absent.\<close>
  "cachedVolumes this =
     (case userData_feature this of
        None \<Rightarrow> []
      | Some f \<Rightarrow> (case boundingVolumes f of None \<Rightarrow> [] | Some bv \<Rightarrow> bv))"

definition activeRange :: "solid_line_mesh \<Rightarrow> displacement_range option" where
  \<comment> \<open>\<open>displacementRange\<close> of \<open>raycastImpl\<close>: defined when the active geometry is the
      displaced view.\<close>
  "activeRange this =
     (if geometry this = DisplacedRef
      then map_option displacementRange (m_displacedGeometry this) else None)"

definition aabb_min :: "vec3 list \<Rightarrow> vec3" where
  "aabb_min vs = Vector3 (Min (vx ` set vs)) (Min (vy ` set vs)) (Min (vz ` set vs))"

definition aabb_max :: "vec3 list \<Rightarrow> vec3" where
  "aabb_max vs = Vector3 (Max (vx ` set vs)) (Max (vy ` set vs)) (Max (vz ` set vs))"

definition spec_aabb :: "vec3 list \<Rightarrow> box3" where
  \<comment> \<open>The axis-aligned box over a list of points, as the spec names it.\<close>
  "spec_aabb vs = (if vs = [] then EmptyBox else Box3 (aabb_min vs) (aabb_max vs))"

definition spec_averageAxisScale :: "matrix4 \<Rightarrow> real" where
  \<comment> \<open>The spec's \<open>averageAxisScale(worldTransform)\<close>: the mean of the three axis scale
      factors of the world transform, that is of the lengths of its basis columns.\<close>
  "spec_averageAxisScale m =
     (v_length (Vector3 (n11 m) (n21 m) (n31 m))
      + v_length (Vector3 (n12 m) (n22 m) (n32 m))
      + v_length (Vector3 (n13 m) (n23 m) (n33 m))) / 3"

definition spec_localThreshold :: "real \<Rightarrow> solid_line_mesh \<Rightarrow> real" where
  \<comment> \<open>The spec's step 4: \<open>threshold / averageAxisScale(worldTransform)\<close>.\<close>
  "spec_localThreshold threshold this = threshold / spec_averageAxisScale (matrixWorld this)"

section \<open>Example inputs\<close>

definition identity :: matrix4 where
  "identity = Matrix4 1 0 0 0  0 1 0 0  0 0 1 0"

definition ex_indices :: "nat list" where
  "ex_indices = [0, 0, 1, 1, 1, 0]"

definition ex_geometry :: buffer_geometry where
  \<comment> \<open>One segment from \<open>(0, 0, 0)\<close> to \<open>(10, 0, 0)\<close>, extruded along \<open>y\<close>.\<close>
  "ex_geometry =
     \<lparr>index = Some ex_indices,
      position = BufferAttribute [Vector3 0 0 0, Vector3 10 0 0],
      normal = [Vector3 0 0 1, Vector3 0 0 1],
      uv = [(0, 0), (1, 0)],
      bitangent = [Vector3 0 1 0, Vector3 0 1 0],
      userData_debug = None\<rparr>"

definition ex_material :: material where
  "ex_material = \<lparr>displacementFeature = False, displacementMap = None,
                   lineWidth = 1, outlineWidth = 0\<rparr>"

definition ex_displacement_material :: material where
  "ex_displacement_material =
     \<lparr>displacementFeature = True, displacementMap = Some (\<lambda>t. 0),
      lineWidth = 1, outlineWidth = 0\<rparr>"

definition ex_mesh :: solid_line_mesh where
  "ex_mesh =
     \<lparr>mesh_id = 7, material = Single ex_material, geometry = GeometryRef 0,
      m_displacedGeometry = None,
      m_getDisplacementRange = \<lparr>range_min = 0, range_max = 0\<rparr>,
      matrixWorld = identity, scale = Vector3 1 1 1, userData_feature = None,
      geometries = (\<lambda>a. BufferGeometry ex_geometry)\<rparr>"

definition ex_raycaster :: raycaster where
  \<comment> \<open>Straight down onto the point \<open>(1/2, 0, 0)\<close> of the segment.\<close>
  "ex_raycaster =
     \<lparr>ray = Ray (Vector3 (1/2) 0 5) (Vector3 0 0 (-1)), near = 0, far = Some 100\<rparr>"

definition ex_mesh_displaced :: solid_line_mesh where
  \<comment> \<open>The same mesh with a material that has a displacement map (constant 0).\<close>
  "ex_mesh_displaced = ex_mesh\<lparr>material := Single ex_displacement_material\<rparr>"

definition ex_mesh_no_index :: solid_line_mesh where
  \<comment> \<open>The displaced mesh over a geometry without an index buffer.\<close>
  "ex_mesh_no_index =
     ex_mesh_displaced\<lparr>geometries := (\<lambda>a. BufferGeometry (ex_geometry\<lparr>index := None\<rparr>))\<rparr>"

definition ex_mesh_scaled_parent :: solid_line_mesh where
  \<comment> \<open>The example mesh under a parent that is scaled by 2: its own \<open>scale\<close> is 1, its
      world matrix scales by 2.\<close>
  "ex_mesh_scaled_parent = ex_mesh\<lparr>matrixWorld := Matrix4 2 0 0 0  0 2 0 0  0 0 2 0\<rparr>"

definition ex_polyline_position :: position_attr where
  \<comment> \<open>A line through \<open>(0, 4)\<close>, \<open>(3, 0)\<close>, \<open>(6, 4)\<close>, \<open>(3, 8)\<close> and \<open>(3, 18)\<close> in the plane
      \<open>z = 0\<close>.\<close>
  "ex_polyline_position =
     BufferAttribute [Vector3 0 4 0, Vector3 3 0 0, Vector3 6 4 0, Vector3 3 8 0, Vector3 3 18 0]"

definition ex_polyline_indices :: "nat list" where
  \<comment> \<open>Four segments, six indices each.\<close>
  "ex_polyline_indices =
     [0, 0, 1, 1, 1, 0,  1, 1, 2, 2, 2, 1,  2, 2, 3, 3, 3, 2,  3, 3, 4, 4, 4, 3]"





definition ex_degenerate_indices :: "nat list" where
  "ex_degenerate_indices = [0, 0, 1, 1, 1, 0,  1, 1, 1, 1, 1, 1]"

definition ex_degenerate_geometry :: buffer_geometry where
  \<comment> \<open>The segment from \<open>(0, 0, 0)\<close> to \<open>(10, 0, 0)\<close> followed by a segment of no length
      at \<open>(10, 0, 0)\<close>: a line string whose last point is repeated.\<close>
  "ex_degenerate_geometry =
     \<lparr>index = Some ex_degenerate_indices,
      position = BufferAttribute [Vector3 0 0 0, Vector3 10 0 0],
      normal = [Vector3 0 0 1, Vector3 0 0 1],
      uv = [(0, 0), (1, 0)],
      bitangent = [Vector3 0 1 0, Vector3 0 1 0],
      userData_debug = None\<rparr>"

definition ex_degenerate_mesh :: solid_line_mesh where
  "ex_degenerate_mesh = ex_mesh\<lparr>geometries := (\<lambda>a. BufferGeometry ex_degenerate_geometry)\<rparr>"

definition ex_offset_raycaster :: raycaster where
  \<comment> \<open>Straight down onto \<open>(5, 3, 0)\<close>, three units beside the line.\<close>
  "ex_offset_raycaster =
     \<lparr>ray = Ray (Vector3 5 3 5) (Vector3 0 0 (-1)), near = 0, far = Some 100\<rparr>"



definition ex_lifted_position :: position_attr where
  \<comment> \<open>A line through \<open>(0, 0)\<close>, \<open>(6, 8)\<close> and \<open>(6, 18)\<close> in the plane \<open>z = 0\<close>.\<close>
  "ex_lifted_position = BufferAttribute [Vector3 0 0 0, Vector3 6 8 0, Vector3 6 18 0]"

definition ex_lifted_indices :: "nat list" where
  \<comment> \<open>Two segments, six indices each.\<close>
  "ex_lifted_indices = [0, 0, 1, 1, 1, 0,  1, 1, 2, 2, 2, 1]"

definition ex_lifted_geometry :: buffer_geometry where
  "ex_lifted_geometry =
     \<lparr>index = Some ex_lifted_indices,
      position = ex_lifted_position,
      normal = replicate 3 (Vector3 0 0 1),
      uv = replicate 3 (0, 0),
      bitangent = replicate 3 (Vector3 1 0 0),
      userData_debug = None\<rparr>"

definition ex_lifted_mesh :: solid_line_mesh where
  \<comment> \<open>A line of width 1/16 that is displaced by 1 along its normal everywhere: the
      displacement map is 1 everywhere and the displacement range is \<open>(1, 1)\<close>.\<close>
  "ex_lifted_mesh =
     \<lparr>mesh_id = 7,
      material = Single \<lparr>displacementFeature = True, displacementMap = Some (\<lambda>t. 1),
                         lineWidth = 1 / 16, outlineWidth = 0\<rparr>,
      geometry = GeometryRef 0,
      m_displacedGeometry = None,
      m_getDisplacementRange = \<lparr>range_min = 1, range_max = 1\<rparr>,
      matrixWorld = identity, scale = Vector3 1 1 1, userData_feature = None,
      geometries = (\<lambda>a. BufferGeometry ex_lifted_geometry)\<rparr>"

definition ex_lifted_view :: buffer_geometry where
  \<comment> \<open>The buffer fields of the displaced view over that line.\<close>
  "ex_lifted_view =
     ex_lifted_geometry
       \<lparr>position := DisplacedBufferAttribute ex_lifted_position (replicate 3 (Vector3 0 0 1))
                      (replicate 3 (0, 0)) (\<lambda>t. 1)\<rparr>"

definition ex_lifted_raycaster :: raycaster where
  \<comment> \<open>A ray through \<open>(0, 0, 1)\<close>, the displaced first vertex of the line, 3 from its
      origin.\<close>
  "ex_lifted_raycaster =
     \<lparr>ray = Ray (Vector3 (- 2) 1 3) (Vector3 (2 / 3) (- 1 / 3) (- 2 / 3)),
      near = 0, far = Some 100\<rparr>"

section \<open>Unfolding the loops\<close>

lemma segmentLoop_step:
  "i < endIdx \<Longrightarrow> segmentLoop tr this rc th lt g ind i endIdx acc =
     segmentLoop tr this rc th lt g ind (i + 6) endIdx
       (case segmentHit tr this rc th lt g ind i of
          None \<Rightarrow> acc
        | Some (hit, dbg) \<Rightarrow> (fst acc @ [hit], snd acc @ [dbg]))"
  by (subst segmentLoop.simps) simp

lemma segmentLoop_done:
  "\<not> i < endIdx \<Longrightarrow> segmentLoop tr this rc th lt g ind i endIdx acc = acc"
  by (subst segmentLoop.simps) simp

lemma expandLoop_step:
  "i < endIdx \<Longrightarrow> expandLoop pos ind i endIdx box =
     expandLoop pos ind (i + 6) endIdx
       (expandByPoint box (fromBufferAttribute pos (js_nth ind i)))"
  by (subst expandLoop.simps) simp

lemma expandLoop_done: "\<not> i < endIdx \<Longrightarrow> expandLoop pos ind i endIdx box = box"
  by (subst expandLoop.simps) simp

lemma radiusLoop_step:
  "i < endIdx \<Longrightarrow> radiusLoop pos ind c i endIdx m =
     radiusLoop pos ind c (i + 6) endIdx
       (js_max m (map_option (distanceToSquared c) (fromBufferAttribute pos (js_nth ind i))))"
  by (subst radiusLoop.simps) simp

lemma radiusLoop_done: "\<not> i < endIdx \<Longrightarrow> radiusLoop pos ind c i endIdx m = m"
  by (subst radiusLoop.simps) simp

lemma featureLoop_done:
  "\<not> i < length fs \<Longrightarrow> featureLoop tr this rc th lt g ind fs n dr i st = st"
  by (subst featureLoop.simps) simp

lemma featureLoop_step:
  "i < length fs \<Longrightarrow> featureLoop tr this rc th lt g ind fs n dr i st =
     (let bVolumes = fst st;
          beginIdx = fs ! i;
          endIdx = (if i = length fs - 1 then length ind else fs ! (i + 1));
          bVolumes' = (if i \<ge> length bVolumes
                       then bVolumes @ [computeBoundingSphere (position g) ind beginIdx endIdx n dr]
                       else bVolumes);
          bSphere = (case js_nth bVolumes' i of None \<Rightarrow> None | Some sp \<Rightarrow> sp)
      in featureLoop tr this rc th lt g ind fs n dr (i + 1)
           (bVolumes', featureIntersect tr this rc th lt g ind beginIdx endIdx bSphere (snd st)))"
  by (subst featureLoop.simps) simp

lemma sampleIndices_step:
  "i < endIdx \<Longrightarrow> sampleIndices i endIdx = i # sampleIndices (i + 6) endIdx"
  by (subst sampleIndices.simps) simp

lemma sampleIndices_done: "\<not> i < endIdx \<Longrightarrow> sampleIndices i endIdx = []"
  by (subst sampleIndices.simps) simp

lemma sqrt_25: "sqrt 25 = 5"
  by (rule real_sqrt_unique) auto

lemma sqrt_100: "sqrt 100 = 10"
  by (rule real_sqrt_unique) auto

section \<open>The two exits of raycastImpl\<close>

lemma raycastImpl_no_buffer:
  "asBufferGeometry this = None \<Longrightarrow> raycastImpl rc xs this = (Throws AssertionFailed, xs, this)"
  by (simp add: raycastImpl_def harp_assert_def Let_def)

lemma raycastImpl_no_index:
  "asBufferGeometry this = Some g \<Longrightarrow> index g = None
     \<Longrightarrow> raycastImpl rc xs this = (Throws AssertionFailed, xs, this)"
  by (simp add: raycastImpl_def harp_assert_def Let_def)

lemma set_debug_geometry: "geometry (set_debug dbg this) = geometry this"
  by (simp add: set_debug_def split: geometry_ref.splits geometry_obj.splits option.splits)

lemma set_debug_original:
  "map_option originalGeometry (m_displacedGeometry (set_debug dbg this))
     = map_option originalGeometry (m_displacedGeometry this)"
  by (simp add: set_debug_def split: geometry_ref.splits geometry_obj.splits option.splits)

lemma raycastImpl_with_index:
  assumes "asBufferGeometry this = Some g" "index g = Some indices"
  shows "fst (raycastImpl rc xs this) = Returns"
    and "geometry (snd (snd (raycastImpl rc xs this))) = geometry this"
    and "map_option originalGeometry (m_displacedGeometry (snd (snd (raycastImpl rc xs this))))
           = map_option originalGeometry (m_displacedGeometry this)"
  using assms by (simp_all add: raycastImpl_def Let_def set_debug_geometry set_debug_original)

lemma raycastImpl_geometry:
  "geometry (snd (snd (raycastImpl rc xs this))) = geometry this"
  by (cases "asBufferGeometry this"; cases "index (the (asBufferGeometry this))")
     (auto simp: raycastImpl_no_buffer raycastImpl_no_index raycastImpl_with_index)

lemma raycastImpl_original:
  "map_option originalGeometry (m_displacedGeometry (snd (snd (raycastImpl rc xs this))))
     = map_option originalGeometry (m_displacedGeometry this)"
  by (cases "asBufferGeometry this"; cases "index (the (asBufferGeometry this))")
     (auto simp: raycastImpl_no_buffer raycastImpl_no_index raycastImpl_with_index)

section \<open>raycastImpl past its checks\<close>

lemma raycastImpl_unfold:
  assumes "asBufferGeometry this = Some g" and "index g = Some indices"
  shows "raycastImpl rc xs this =
     (let threshold = (case material this of
                         Single m \<Rightarrow> Some (lineWidth m + outlineWidth m)
                       | Multi m ms \<Rightarrow> None);
          res = featureLoop (map_option (ray_applyMatrix4 (ray rc)) (getInverse (matrixWorld this)))
                  this rc threshold
                  (map_option (\<lambda>t. t * t) (localThreshold threshold (scale this)))
                  g indices (featureStartsOf this) (js_nth (normal g) 0) (activeRange this) 0
                  (cachedVolumes this, xs, [])
      in (Returns, fst (snd res),
          set_debug (snd (snd res))
            (this\<lparr>userData_feature :=
                    Some \<lparr>starts = cachedStarts this, boundingVolumes = Some (fst res)\<rparr>\<rparr>)))"
proof -
  have f: "(case userData_feature this of
              None \<Rightarrow> \<lparr>starts = None, boundingVolumes = None\<rparr> | Some f \<Rightarrow> f)\<lparr>boundingVolumes := b\<rparr>
           = \<lparr>starts = cachedStarts this, boundingVolumes = b\<rparr>" for b
    by (simp add: cachedStarts_def split: option.splits)
  have s: "(case starts (case userData_feature this of
              None \<Rightarrow> \<lparr>starts = None, boundingVolumes = None\<rparr> | Some f \<Rightarrow> f) of
              None \<Rightarrow> [0] | Some fs \<Rightarrow> fs) = featureStartsOf this"
    by (simp add: featureStartsOf_def cachedStarts_def split: option.splits)
  have c: "(case boundingVolumes (case userData_feature this of
              None \<Rightarrow> \<lparr>starts = None, boundingVolumes = None\<rparr> | Some f \<Rightarrow> f) of
              None \<Rightarrow> [] | Some bv \<Rightarrow> bv) = cachedVolumes this"
    by (simp add: cachedVolumes_def split: option.splits)
  show ?thesis
    by (simp add: raycastImpl_def assms Let_def f s c activeRange_def)
qed

section \<open>The two paths of raycast\<close>

lemma raycast_fallback:
  "\<not> takesDisplacedPath this \<Longrightarrow> raycast rc xs this = raycastImpl rc xs this"
  by (auto simp: raycast_def takesDisplacedPath_def Let_def split: option.splits)

lemma displacedState_eq:
  "(case m_displacedGeometry this of
      Some d \<Rightarrow>
        this\<lparr>m_displacedGeometry :=
               Some (reset d (geometry this) g dmap (m_getDisplacementRange this))\<rparr>
    | None \<Rightarrow>
        this\<lparr>m_displacedGeometry :=
               Some (newDisplacedBufferGeometry (geometry this) g (m_getDisplacementRange this)
                       (getDisplacedPositionAttribute g dmap))\<rparr>)\<lparr>geometry := DisplacedRef\<rparr>
   = displacedState this g dmap"
  by (simp add: displacedState_def split: option.splits)

lemma displacedState_original:
  "map_option originalGeometry (m_displacedGeometry (displacedState this g dmap))
     = Some (geometry this)"
  by (simp add: displacedState_def reset_def newDisplacedBufferGeometry_def split: option.splits)

lemma raycast_displaced:
  assumes "asBufferGeometry this = Some g"
    and "displacementFeature (case material this of Multi m ms \<Rightarrow> m | Single m \<Rightarrow> m)"
    and "displacementMap (case material this of Multi m ms \<Rightarrow> m | Single m \<Rightarrow> m) = Some dmap"
  shows "raycast rc xs this =
     (let res = raycastImpl rc xs (displacedState this g dmap) in
      case fst res of
        Throws e \<Rightarrow> res
      | Returns \<Rightarrow> (Returns, fst (snd res), (snd (snd res))\<lparr>geometry := geometry this\<rparr>))"
proof -
  let ?res = "raycastImpl rc xs (displacedState this g dmap)"
  have "map_option originalGeometry (m_displacedGeometry (snd (snd ?res))) = Some (geometry this)"
    by (simp add: raycastImpl_original displacedState_original)
  then obtain d where d: "m_displacedGeometry (snd (snd ?res)) = Some d"
    "originalGeometry d = geometry this" by auto
  have eq: "raycast rc xs this =
     (case fst ?res of
        Throws e \<Rightarrow> ?res
      | Returns \<Rightarrow>
          (case m_displacedGeometry (snd (snd ?res)) of
             None \<Rightarrow> (Throws TypeError, fst (snd ?res), snd (snd ?res))
           | Some d \<Rightarrow>
               (Returns, fst (snd ?res), (snd (snd ?res))\<lparr>geometry := originalGeometry d\<rparr>)))"
    using assms
    by (simp add: raycast_def Let_def displacedState_eq
          cong: completion.case_cong option.case_cong)
  show ?thesis unfolding eq Let_def using d by (simp split: completion.splits)
qed

lemma displacedState_index:
  "\<exists>g'. asBufferGeometry (displacedState this g dmap) = Some g' \<and> index g' = index g"
  by (simp add: displacedState_def asBufferGeometry_def reset_def newDisplacedBufferGeometry_def
        split: option.splits)

text \<open>
  Claim C8. When the active geometry is not a buffer geometry, or is one without an index
  buffer, \<open>raycast\<close> fails with the assertion and the caller's list of intersections is
  as it was: the check comes before any feature is looked at, on either path.
\<close>

theorem raycast_fails_without_index:
  assumes "asBufferGeometry this = None \<or> (\<exists>g. asBufferGeometry this = Some g \<and> index g = None)"
  shows "fst (raycast rc xs this) = Throws AssertionFailed \<and> fst (snd (raycast rc xs this)) = xs"
proof (cases "takesDisplacedPath this")
  case False
  then have "raycast rc xs this = raycastImpl rc xs this" by (rule raycast_fallback)
  with assms show ?thesis
    by (auto simp: raycastImpl_no_buffer raycastImpl_no_index)
next
  case True
  then obtain g dmap where g: "asBufferGeometry this = Some g"
    and f: "displacementFeature (case material this of Multi m ms \<Rightarrow> m | Single m \<Rightarrow> m)"
    and m: "displacementMap (case material this of Multi m ms \<Rightarrow> m | Single m \<Rightarrow> m) = Some dmap"
    by (auto simp: takesDisplacedPath_def Let_def)
  from g assms have ix: "index g = None" by auto
  obtain g' where "asBufferGeometry (displacedState this g dmap) = Some g'" "index g' = None"
    using displacedState_index [of this g dmap] ix by auto
  then have "raycastImpl rc xs (displacedState this g dmap)
               = (Throws AssertionFailed, xs, displacedState this g dmap)"
    by (rule raycastImpl_no_index)
  then show ?thesis
    unfolding raycast_displaced [OF g f m] Let_def by simp
qed

lemma ex_no_index_buffer:
  "asBufferGeometry ex_mesh_no_index = Some (ex_geometry\<lparr>index := None\<rparr>)"
  by (simp add: ex_mesh_no_index_def ex_mesh_displaced_def ex_mesh_def asBufferGeometry_def)

theorem raycast_fails_without_index_witness:
  "(asBufferGeometry ex_mesh_no_index = None \<or>
      (\<exists>g. asBufferGeometry ex_mesh_no_index = Some g \<and> index g = None)) \<and>
   fst (raycast ex_raycaster [] ex_mesh_no_index) = Throws AssertionFailed \<and>
   fst (snd (raycast ex_raycaster [] ex_mesh_no_index)) = []"
proof -
  have h: "asBufferGeometry ex_mesh_no_index = None \<or>
      (\<exists>g. asBufferGeometry ex_mesh_no_index = Some g \<and> index g = None)"
    by (simp add: ex_no_index_buffer)
  from raycast_fails_without_index [OF h, of ex_raycaster "[]"] h show ?thesis by simp
qed

text \<open>
  Claim C1, as amended. On the path that uses the displaced view, \<open>raycastImpl\<close> runs on
  a mesh whose active geometry is the view, and when the call returns the active
  geometry is again the one from before the call. The restoring assignment is an
  ordinary statement after the call of \<open>raycastImpl\<close>; it is reached on every return of
  \<open>raycastImpl\<close> and on no throw.
\<close>

theorem raycast_restores_geometry_on_return:
  assumes "takesDisplacedPath this" and "fst (raycast rc xs this) = Returns"
  shows "geometry (snd (snd (raycast rc xs this))) = geometry this \<and>
         (\<exists>g dmap. asBufferGeometry this = Some g \<and>
            displacementMap (case material this of Multi m ms \<Rightarrow> m | Single m \<Rightarrow> m)
              = Some dmap \<and>
            geometry (displacedState this g dmap) = DisplacedRef \<and>
            fst (snd (raycast rc xs this))
              = fst (snd (raycastImpl rc xs (displacedState this g dmap))))"
proof -
  from assms(1) obtain g dmap where g: "asBufferGeometry this = Some g"
    and f: "displacementFeature (case material this of Multi m ms \<Rightarrow> m | Single m \<Rightarrow> m)"
    and m: "displacementMap (case material this of Multi m ms \<Rightarrow> m | Single m \<Rightarrow> m) = Some dmap"
    by (auto simp: takesDisplacedPath_def Let_def)
  note eq = raycast_displaced [OF g f m, of rc xs]
  from assms(2) have r: "fst (raycastImpl rc xs (displacedState this g dmap)) = Returns"
    unfolding eq Let_def by (simp split: completion.splits)
  have "geometry (snd (snd (raycast rc xs this))) = geometry this"
    unfolding eq Let_def using r by simp
  moreover have "fst (snd (raycast rc xs this))
                   = fst (snd (raycastImpl rc xs (displacedState this g dmap)))"
    unfolding eq Let_def using r by simp
  moreover have "geometry (displacedState this g dmap) = DisplacedRef"
    by (simp add: displacedState_def)
  ultimately show ?thesis using g m by blast
qed

lemma ex_displaced_path: "takesDisplacedPath ex_mesh_displaced"
  by (simp add: takesDisplacedPath_def ex_mesh_displaced_def ex_mesh_def
        ex_displacement_material_def asBufferGeometry_def)

lemma ex_displaced_returns: "fst (raycast ex_raycaster [] ex_mesh_displaced) = Returns"
proof -
  have g: "asBufferGeometry ex_mesh_displaced = Some ex_geometry"
    by (simp add: ex_mesh_displaced_def ex_mesh_def asBufferGeometry_def)
  have f: "displacementFeature
             (case material ex_mesh_displaced of Multi m ms \<Rightarrow> m | Single m \<Rightarrow> m)"
    by (simp add: ex_mesh_displaced_def ex_mesh_def ex_displacement_material_def)
  have m: "displacementMap
             (case material ex_mesh_displaced of Multi m ms \<Rightarrow> m | Single m \<Rightarrow> m)
           = Some (\<lambda>t. 0)"
    by (simp add: ex_mesh_displaced_def ex_mesh_def ex_displacement_material_def)
  obtain g' where g': "asBufferGeometry (displacedState ex_mesh_displaced ex_geometry (\<lambda>t. 0)) = Some g'"
    "index g' = index ex_geometry"
    using displacedState_index by blast
  from g'(2) have "index g' = Some ex_indices" by (simp add: ex_geometry_def)
  with g'(1) have "fst (raycastImpl ex_raycaster [] (displacedState ex_mesh_displaced ex_geometry (\<lambda>t. 0)))
                    = Returns"
    by (rule raycastImpl_with_index)
  then show ?thesis
    unfolding raycast_displaced [OF g f m] Let_def by simp
qed

theorem raycast_restores_geometry_on_return_witness:
  "takesDisplacedPath ex_mesh_displaced \<and>
   fst (raycast ex_raycaster [] ex_mesh_displaced) = Returns \<and>
   geometry (snd (snd (raycast ex_raycaster [] ex_mesh_displaced))) = GeometryRef 0"
proof -
  have "geometry ex_mesh_displaced = GeometryRef 0"
    by (simp add: ex_mesh_displaced_def ex_mesh_def)
  with raycast_restores_geometry_on_return [OF ex_displaced_path ex_displaced_returns]
  show ?thesis using ex_displaced_path ex_displaced_returns by simp
qed

text \<open>
  Claim C1, as stated, fails: over a geometry without an index buffer the call takes the
  displaced path, fails in \<open>raycastImpl\<close> with the assertion, and leaves the mesh with the
  displaced view as its active geometry, where the geometry at address 0 was before.
\<close>

theorem raycast_restore_counterexample:
  "takesDisplacedPath ex_mesh_no_index \<and>
   fst (raycast ex_raycaster [] ex_mesh_no_index) = Throws AssertionFailed \<and>
   geometry ex_mesh_no_index = GeometryRef 0 \<and>
   geometry (snd (snd (raycast ex_raycaster [] ex_mesh_no_index))) = DisplacedRef"
proof -
  note g = ex_no_index_buffer
  have f: "displacementFeature
             (case material ex_mesh_no_index of Multi m ms \<Rightarrow> m | Single m \<Rightarrow> m)"
    by (simp add: ex_mesh_no_index_def ex_mesh_displaced_def ex_mesh_def
          ex_displacement_material_def)
  have m: "displacementMap
             (case material ex_mesh_no_index of Multi m ms \<Rightarrow> m | Single m \<Rightarrow> m)
           = Some (\<lambda>t. 0)"
    by (simp add: ex_mesh_no_index_def ex_mesh_displaced_def ex_mesh_def
          ex_displacement_material_def)
  let ?this2 = "displacedState ex_mesh_no_index (ex_geometry\<lparr>index := None\<rparr>) (\<lambda>t. 0)"
  obtain g' where "asBufferGeometry ?this2 = Some g'" "index g' = None"
    using displacedState_index [of ex_mesh_no_index "ex_geometry\<lparr>index := None\<rparr>" "\<lambda>t. 0"]
    by auto
  then have r: "raycastImpl ex_raycaster [] ?this2 = (Throws AssertionFailed, [], ?this2)"
    by (rule raycastImpl_no_index)
  have "raycast ex_raycaster [] ex_mesh_no_index = (Throws AssertionFailed, [], ?this2)"
    unfolding raycast_displaced [OF g f m] Let_def r by simp
  moreover have "geometry ?this2 = DisplacedRef" by (simp add: displacedState_def)
  moreover have "geometry ex_mesh_no_index = GeometryRef 0"
    by (simp add: ex_mesh_no_index_def ex_mesh_displaced_def ex_mesh_def)
  moreover have "takesDisplacedPath ex_mesh_no_index"
    using g f m by (simp add: takesDisplacedPath_def Let_def)
  ultimately show ?thesis by simp
qed

section \<open>The example mesh, evaluated\<close>

lemma ex_inverse: "getInverse identity = Some identity"
  by (simp add: getInverse_def identity_def determinant_def)

lemma ex_indices_length: "length ex_indices = 6"
  by (simp add: ex_indices_def)

lemma ex_sphere:
  "computeBoundingSphere (position ex_geometry) ex_indices 0 6 n None
     = Some (Sphere (Vector3 0 0 0) 0)"
  by (simp add: computeBoundingSphere_def ex_geometry_def ex_indices_def expandLoop_step
        expandLoop_done radiusLoop_step radiusLoop_done fromBufferAttribute_def js_nth_def
        js_max_def multiplyScalar_def v_add_def distanceToSquared_def)

lemma ex_hit:
  "segmentHit (Some (ray ex_raycaster)) ex_mesh ex_raycaster (Some 1) (Some 1) ex_geometry
     ex_indices 0
   = Some (Intersection 5 (Vector3 (1/2) 0 0) 0 7,
           DebugEntry (Line3 (Vector3 0 0 0) (Vector3 10 0 0))
             (Ray (Vector3 (1/2) 0 0) (Vector3 0 1 0)) (Some 1))"
  by (simp add: segmentHit_def ex_geometry_def ex_indices_def ex_mesh_def ex_raycaster_def
        identity_def js_nth_def fromBufferAttribute_def setFromCoplanarPoints_def v_add_def
        v_sub_def v_cross_def normalize_def v_length_def multiplyScalar_def v_dot_def
        intersectPlane_def distanceToPlane_def distanceToPoint_def ray_at_def
        closestPointToPoint_def closestPointToPointParameter_def distanceToSquared_def js_gt_def
        applyMatrix4_def distanceTo_def line3_applyMatrix4_def transformDirection_def sqrt_25
        sqrt_100 Let_def)

lemma ex_feature:
  "featureIntersect (Some (ray ex_raycaster)) ex_mesh ex_raycaster (Some 1) (Some 1) ex_geometry
     ex_indices 0 6 (Some (Sphere (Vector3 0 0 0) 0)) ([], [])
   = ([Intersection 5 (Vector3 (1/2) 0 0) 0 7],
      [DebugEntry (Line3 (Vector3 0 0 0) (Vector3 10 0 0))
         (Ray (Vector3 (1/2) 0 0) (Vector3 0 1 0)) (Some 1)])"
proof -
  have s: "intersectsSphere (ray ex_raycaster)
             (Sphere (center (sphere_applyMatrix4 (Sphere (Vector3 0 0 0) 0) (matrixWorld ex_mesh)))
                (radius (sphere_applyMatrix4 (Sphere (Vector3 0 0 0) 0) (matrixWorld ex_mesh)) + 1))"
    by (simp add: intersectsSphere_def sphere_applyMatrix4_def ex_mesh_def identity_def
          applyMatrix4_def distanceSqToPoint_def ex_raycaster_def v_dot_def v_sub_def
          distanceToSquared_def v_add_def multiplyScalar_def Let_def)
  show ?thesis
    by (simp add: featureIntersect_def Let_def s segmentLoop_step segmentLoop_done ex_hit)
qed

lemma ex_local_ray:
  "map_option (ray_applyMatrix4 (ray ex_raycaster)) (getInverse identity)
     = Some (ray ex_raycaster)"
  by (simp add: ex_inverse)
     (simp add: ray_applyMatrix4_def ex_raycaster_def identity_def applyMatrix4_def
        transformDirection_def normalize_def v_length_def multiplyScalar_def)

lemma ex_raycastImpl:
  "raycastImpl ex_raycaster [] ex_mesh =
     (Returns, [Intersection 5 (Vector3 (1/2) 0 0) 0 7],
      set_debug [DebugEntry (Line3 (Vector3 0 0 0) (Vector3 10 0 0))
                   (Ray (Vector3 (1/2) 0 0) (Vector3 0 1 0)) (Some 1)]
        (ex_mesh\<lparr>userData_feature :=
            Some \<lparr>starts = None, boundingVolumes = Some [Some (Sphere (Vector3 0 0 0) 0)]\<rparr>\<rparr>))"
proof -
  have g: "asBufferGeometry ex_mesh = Some ex_geometry"
    by (simp add: ex_mesh_def asBufferGeometry_def)
  have i: "index ex_geometry = Some ex_indices" by (simp add: ex_geometry_def)
  have r: "map_option (ray_applyMatrix4 (ray ex_raycaster)) (getInverse (matrixWorld ex_mesh))
             = Some (ray ex_raycaster)"
    using ex_local_ray by (simp add: ex_mesh_def)
  have t: "material ex_mesh = Single ex_material" "scale ex_mesh = Vector3 1 1 1"
    "userData_feature ex_mesh = None" "geometry ex_mesh = GeometryRef 0"
    by (simp_all add: ex_mesh_def)
  have l: "localThreshold (Some 1) (Vector3 1 1 1) = Some 1"
    by (simp add: localThreshold_def js_div_def)
  have f: "featureLoop (Some (ray ex_raycaster)) ex_mesh ex_raycaster (Some 1) (Some 1)
             ex_geometry ex_indices [0] n None 0 ([], [], [])
           = ([Some (Sphere (Vector3 0 0 0) 0)], [Intersection 5 (Vector3 (1/2) 0 0) 0 7],
              [DebugEntry (Line3 (Vector3 0 0 0) (Vector3 10 0 0))
                 (Ray (Vector3 (1/2) 0 0) (Vector3 0 1 0)) (Some 1)])" for n
    by (simp add: featureLoop_step featureLoop_done Let_def ex_indices_length ex_sphere js_nth_def
          ex_feature)
  show ?thesis
    by (simp add: raycastImpl_def g i r t Let_def ex_material_def l f)
qed

lemma set_debug_feature: "userData_feature (set_debug dbg this) = userData_feature this"
  by (simp add: set_debug_def split: geometry_ref.splits geometry_obj.splits option.splits)

lemma ex_fallback_path: "\<not> takesDisplacedPath ex_mesh"
  by (simp add: takesDisplacedPath_def ex_mesh_def ex_material_def)

text \<open>
  Claim C2, as amended. When the material has no displacement capability or no data
  texture as its displacement map, or the active geometry is not a buffer geometry,
  \<open>raycast\<close> is \<open>raycastImpl\<close> on the mesh as it stands: the mesh's own test of features
  and segments against the undisplaced geometry, with no displaced view built.
\<close>

theorem raycast_without_displacement:
  assumes "\<not> takesDisplacedPath this"
  shows "raycast rc xs this = raycastImpl rc xs this"
  using assms by (auto simp: raycast_def takesDisplacedPath_def Let_def split: option.splits)

theorem raycast_without_displacement_witness:
  "\<not> takesDisplacedPath ex_mesh \<and>
   raycast ex_raycaster [] ex_mesh = raycastImpl ex_raycaster [] ex_mesh"
  using raycast_without_displacement [OF ex_fallback_path, of ex_raycaster "[]"]
    ex_fallback_path by simp

text \<open>
  Claim C2, as stated, fails: on a mesh whose material has no displacement capability
  the call does the work on features and segments itself. It computes the bounding
  sphere of the one feature and stores it in the mesh's cache, which was absent before,
  and it returns the record of the segment loop, carrying the segment's start index.
\<close>

theorem raycast_without_displacement_counterexample:
  "\<not> takesDisplacedPath ex_mesh \<and>
   userData_feature ex_mesh = None \<and>
   fst (snd (raycast ex_raycaster [] ex_mesh)) = [Intersection 5 (Vector3 (1/2) 0 0) 0 7] \<and>
   userData_feature (snd (snd (raycast ex_raycaster [] ex_mesh)))
     = Some \<lparr>starts = None, boundingVolumes = Some [Some (Sphere (Vector3 0 0 0) 0)]\<rparr>"
proof -
  have "raycast ex_raycaster [] ex_mesh = raycastImpl ex_raycaster [] ex_mesh"
    using ex_fallback_path by (rule raycast_fallback)
  then show ?thesis
    using ex_fallback_path by (simp add: ex_raycastImpl set_debug_feature) (simp add: ex_mesh_def)
qed

section \<open>computeBoundingSphere\<close>

lemma sampledVertices_step:
  "i < e \<Longrightarrow> sampledVertices pos ind i e
      = fromBufferAttribute pos (js_nth ind i) # sampledVertices pos ind (i + 6) e"
  by (simp add: sampledVertices_def sampleIndices_step)

lemma sampledVertices_done: "\<not> i < e \<Longrightarrow> sampledVertices pos ind i e = []"
  by (simp add: sampledVertices_def sampleIndices_done)

lemma expandLoop_fold:
  "expandLoop pos ind i e box = foldl expandByPoint box (sampledVertices pos ind i e)"
proof (induction pos ind i e box rule: expandLoop.induct)
  case (1 pos ind i e box)
  show ?case
  proof (cases "i < e")
    case True
    then show ?thesis using 1 by (simp add: expandLoop_step sampledVertices_step)
  next
    case False
    then show ?thesis by (simp add: expandLoop_done sampledVertices_done)
  qed
qed

lemma radiusLoop_fold:
  "radiusLoop pos ind c i e m
     = foldl (\<lambda>m v. js_max m (map_option (distanceToSquared c) v)) m (sampledVertices pos ind i e)"
proof (induction pos ind c i e m rule: radiusLoop.induct)
  case (1 pos ind c i e m)
  show ?case
  proof (cases "i < e")
    case True
    then show ?thesis using 1 by (simp add: radiusLoop_step sampledVertices_step)
  next
    case False
    then show ?thesis by (simp add: radiusLoop_done sampledVertices_done)
  qed
qed

lemma foldl_expand_Box:
  "foldl expandByPoint (Box3 lo hi) (map Some vs) = Box3 (foldl v_min lo vs) (foldl v_max hi vs)"
  by (induction vs arbitrary: lo hi) simp_all

lemma Min_insert_min:
  "finite S \<Longrightarrow> Min (insert (min a b) S) = Min (insert (a::real) (insert b S))"
  by (cases "S = {}") (simp_all add: min.assoc)

lemma Max_insert_max:
  "finite S \<Longrightarrow> Max (insert (max a b) S) = Max (insert (a::real) (insert b S))"
  by (cases "S = {}") (simp_all add: max.assoc)

lemma foldl_v_min:
  "foldl v_min lo vs = Vector3 (Min (insert (vx lo) (vx ` set vs)))
                               (Min (insert (vy lo) (vy ` set vs)))
                               (Min (insert (vz lo) (vz ` set vs)))"
proof (induction vs arbitrary: lo)
  case Nil
  show ?case by simp
next
  case (Cons v vs)
  show ?case
    by (simp add: Cons) (simp add: v_min_def Min_insert_min)
qed

lemma foldl_v_max:
  "foldl v_max hi vs = Vector3 (Max (insert (vx hi) (vx ` set vs)))
                               (Max (insert (vy hi) (vy ` set vs)))
                               (Max (insert (vz hi) (vz ` set vs)))"
proof (induction vs arbitrary: hi)
  case Nil
  show ?case by simp
next
  case (Cons v vs)
  show ?case
    by (simp add: Cons) (simp add: v_max_def Max_insert_max)
qed

lemma foldl_expand_aabb:
  "foldl expandByPoint EmptyBox (map Some vs) = spec_aabb vs"
proof (cases vs)
  case Nil
  then show ?thesis by (simp add: spec_aabb_def)
next
  case (Cons v ws)
  then show ?thesis
    by (simp add: spec_aabb_def foldl_expand_Box foldl_v_min foldl_v_max aabb_min_def aabb_max_def)
qed

lemma aabb_bounds:
  assumes "v \<in> set vs"
  shows "vx (aabb_min vs) \<le> vx v" "vy (aabb_min vs) \<le> vy v" "vz (aabb_min vs) \<le> vz v"
    "vx v \<le> vx (aabb_max vs)" "vy v \<le> vy (aabb_max vs)" "vz v \<le> vz (aabb_max vs)"
  using assms by (simp_all add: aabb_min_def aabb_max_def)

lemma half_sqrt: "sqrt a * (1 / 2) = sqrt (a / 4)"
  by (simp add: real_sqrt_divide)

lemma box_sphere_contains:
  assumes "vx lo \<le> vx p" "vx p \<le> vx hi" "vy lo \<le> vy p" "vy p \<le> vy hi"
    "vz lo \<le> vz p" "vz p \<le> vz hi"
  shows "distanceTo (multiplyScalar (v_add lo hi) (1 / 2)) p \<le> v_length (v_sub hi lo) * (1 / 2)"
proof -
  have sq: "(((l + h) * (1 / 2) - q) * ((l + h) * (1 / 2) - q)) \<le> (h - l) * (h - l) / 4"
    if "l \<le> q" "q \<le> h" for l h q :: real
  proof -
    have "\<bar>(l + h) * (1 / 2) - q\<bar> \<le> \<bar>(h - l) / 2\<bar>" using that by (simp add: abs_le_iff field_simps)
    then have "((l + h) * (1 / 2) - q)\<^sup>2 \<le> ((h - l) / 2)\<^sup>2" by (simp only: abs_le_square_iff)
    then show ?thesis by (simp add: power2_eq_square)
  qed
  show ?thesis
    unfolding distanceTo_def distanceToSquared_def v_length_def half_sqrt Let_def
    apply (rule real_sqrt_le_mono)
    using sq [OF assms(1,2)] sq [OF assms(3,4)] sq [OF assms(5,6)]
    apply (simp add: multiplyScalar_def v_add_def v_sub_def add_divide_distrib)
    done
qed

lemma foldl_js_max:
  "foldl (\<lambda>m v. js_max m (map_option f v)) (Some m0) (map Some vs)
     = Some (Max (insert m0 (f ` set vs)))"
proof (induction vs arbitrary: m0)
  case Nil
  show ?case by simp
next
  case (Cons v vs)
  have "js_max (Some m0) (map_option f (Some v)) = Some (max m0 (f v))"
    by (simp add: js_max_def)
  then show ?case by (simp add: Cons Max_insert_max)
qed

lemma distanceToSquared_nonneg: "0 \<le> distanceToSquared a b"
  by (simp add: distanceToSquared_def Let_def)

lemma sphere_without_range:
  assumes "sampledVertices pos ind beginIdx endIdx = map Some vs" and "vs \<noteq> []"
  shows "computeBoundingSphere pos ind beginIdx endIdx n None
           = Some (Sphere (multiplyScalar (v_add (aabb_min vs) (aabb_max vs)) (1 / 2))
                 (Max (distanceTo (multiplyScalar (v_add (aabb_min vs) (aabb_max vs)) (1 / 2)) ` set vs)))"
proof -
  let ?c = "multiplyScalar (v_add (aabb_min vs) (aabb_max vs)) (1 / 2)"
  let ?S = "distanceToSquared ?c ` set vs"
  have box: "expandLoop pos ind beginIdx endIdx EmptyBox = Box3 (aabb_min vs) (aabb_max vs)"
    using assms by (simp add: expandLoop_fold foldl_expand_aabb spec_aabb_def)
  have fin: "finite ?S" "?S \<noteq> {}" using assms(2) by simp_all
  have "0 \<le> Max ?S"
  proof -
    obtain v where "v \<in> set vs" using assms(2) by (cases vs) auto
    then have "distanceToSquared ?c v \<le> Max ?S" by simp
    with distanceToSquared_nonneg [of ?c v] show ?thesis by linarith
  qed
  then have m: "Max (insert 0 ?S) = Max ?S" using fin by simp
  have rad: "radiusLoop pos ind ?c beginIdx endIdx (Some 0) = Some (Max ?S)"
    using assms(1) m by (simp add: radiusLoop_fold foldl_js_max)
  have "mono sqrt" by (simp add: mono_def)
  then have "sqrt (Max ?S) = Max (sqrt ` ?S)" using fin by (rule mono_Max_commute)
  also have "sqrt ` ?S = distanceTo ?c ` set vs"
    by (simp add: image_image distanceTo_def)
  finally have sq: "sqrt (Max ?S) = Max (distanceTo ?c ` set vs)" .
  show ?thesis
    by (simp add: computeBoundingSphere_def box rad sq)
qed

text \<open>
  Claim C6. For a feature with at least one sampled vertex, all of them within the
  arrays, and no displacement range, \<open>computeBoundingSphere\<close> returns a sphere whose centre
  is the centre of the axis-aligned box over the sampled vertices and whose radius is
  the largest distance from that centre to a sampled vertex; every sampled vertex is
  within the radius of the centre.
\<close>

theorem computeBoundingSphere_undisplaced:
  assumes "sampledVertices pos ind beginIdx endIdx = map Some vs" and "vs \<noteq> []"
  shows "\<exists>s. computeBoundingSphere pos ind beginIdx endIdx n None = Some s \<and>
             center s = multiplyScalar (v_add (aabb_min vs) (aabb_max vs)) (1 / 2) \<and>
             radius s = Max (distanceTo (center s) ` set vs) \<and>
             (\<forall>v\<in>set vs. distanceTo (center s) v \<le> radius s)"
  using sphere_without_range [OF assms, of n] by simp

lemma sphere_with_range:
  assumes "sampledVertices pos ind beginIdx endIdx = map Some vs"
  shows "computeBoundingSphere pos ind beginIdx endIdx (Some n) (Some dr) =
           getBoundingSphere
             (union_box (translate (spec_aabb vs) (Some (multiplyScalar n (range_min dr))))
                        (translate (spec_aabb vs) (Some (multiplyScalar n (range_max dr)))))"
  using assms by (simp add: computeBoundingSphere_def expandLoop_fold foldl_expand_aabb Let_def)

lemma union_translate_contains:
  assumes "v \<in> set vs"
  shows "\<exists>lo hi. union_box (translate (spec_aabb vs) (Some a)) (translate (spec_aabb vs) (Some b))
                   = Box3 lo hi \<and>
          vx lo \<le> vx (v_add v a) \<and> vx (v_add v a) \<le> vx hi \<and>
          vy lo \<le> vy (v_add v a) \<and> vy (v_add v a) \<le> vy hi \<and>
          vz lo \<le> vz (v_add v a) \<and> vz (v_add v a) \<le> vz hi \<and>
          vx lo \<le> vx (v_add v b) \<and> vx (v_add v b) \<le> vx hi \<and>
          vy lo \<le> vy (v_add v b) \<and> vy (v_add v b) \<le> vy hi \<and>
          vz lo \<le> vz (v_add v b) \<and> vz (v_add v b) \<le> vz hi"
proof -
  from assms have ne: "vs \<noteq> []" by auto
  show ?thesis
    using aabb_bounds [OF assms] ne
    by (simp add: spec_aabb_def v_add_def v_min_def v_max_def min_def max_def)
qed

text \<open>
  On the attribute it is given, \<open>computeBoundingSphere\<close> with a displacement range
  returns the bounding sphere of the union of two copies of the axis-aligned box over
  the sampled vertices of that attribute, one moved by \<open>normal * min\<close> and one by
  \<open>normal * max\<close>, and the sphere contains every one of these vertices moved by
  \<open>normal * min\<close> and by \<open>normal * max\<close>. The sampled vertices are within the arrays and
  the normal is a number vector.
\<close>

lemma sphere_with_range_contains:
  assumes "sampledVertices pos ind beginIdx endIdx = map Some vs"
  shows "computeBoundingSphere pos ind beginIdx endIdx (Some n) (Some dr) =
           getBoundingSphere
             (union_box (translate (spec_aabb vs) (Some (multiplyScalar n (range_min dr))))
                        (translate (spec_aabb vs) (Some (multiplyScalar n (range_max dr))))) \<and>
         (\<exists>s. computeBoundingSphere pos ind beginIdx endIdx (Some n) (Some dr) = Some s \<and>
            (\<forall>v\<in>set vs.
               distanceTo (center s) (v_add v (multiplyScalar n (range_min dr))) \<le> radius s \<and>
               distanceTo (center s) (v_add v (multiplyScalar n (range_max dr))) \<le> radius s))"
proof -
  let ?a = "multiplyScalar n (range_min dr)" and ?b = "multiplyScalar n (range_max dr)"
  let ?u = "union_box (translate (spec_aabb vs) (Some ?a)) (translate (spec_aabb vs) (Some ?b))"
  note eq = sphere_with_range [OF assms, of n dr]
  have ex: "\<exists>s. getBoundingSphere ?u = Some s"
    by (cases "vs = []") (simp_all add: spec_aabb_def getBoundingSphere_def)
  then obtain s where s: "getBoundingSphere ?u = Some s" by blast
  have "distanceTo (center s) (v_add v ?a) \<le> radius s \<and>
        distanceTo (center s) (v_add v ?b) \<le> radius s" if "v \<in> set vs" for v
  proof -
    from union_translate_contains [OF that, of ?a ?b] obtain lo hi
      where u: "?u = Box3 lo hi"
        and a: "vx lo \<le> vx (v_add v ?a)" "vx (v_add v ?a) \<le> vx hi"
               "vy lo \<le> vy (v_add v ?a)" "vy (v_add v ?a) \<le> vy hi"
               "vz lo \<le> vz (v_add v ?a)" "vz (v_add v ?a) \<le> vz hi"
        and b: "vx lo \<le> vx (v_add v ?b)" "vx (v_add v ?b) \<le> vx hi"
               "vy lo \<le> vy (v_add v ?b)" "vy (v_add v ?b) \<le> vy hi"
               "vz lo \<le> vz (v_add v ?b)" "vz (v_add v ?b) \<le> vz hi"
      by blast
    from s u have "s = Sphere (multiplyScalar (v_add lo hi) (1 / 2)) (v_length (v_sub hi lo) * (1 / 2))"
      by (simp add: getBoundingSphere_def)
    then show ?thesis
      using box_sphere_contains [OF a] box_sphere_contains [OF b] by simp
  qed
  then show ?thesis using eq s by auto
qed

lemma sampleIndices_single: "b < e \<Longrightarrow> e \<le> b + 6 \<Longrightarrow> sampleIndices b e = [b]"
  by (simp add: sampleIndices_step sampleIndices_done)

lemma computeBoundingSphere_samples:
  assumes "sampledVertices pos ind' b e = sampledVertices pos ind b e"
  shows "computeBoundingSphere pos ind' b e n dr = computeBoundingSphere pos ind b e n dr"
  using assms
  by (simp add: computeBoundingSphere_def expandLoop_fold radiusLoop_fold Let_def
        cong: option.case_cong)

text \<open>
  Claim C9. \<open>computeBoundingSphere\<close> reads the index array at \<open>beginIdx\<close>,
  \<open>beginIdx + 6\<close>, ... only: two index arrays that agree there give the same sphere,
  whatever they hold at \<open>i + 2\<close>. For a feature of one segment the sphere without
  displacement has the segment's start vertex as its centre and radius 0, so no other
  point, the segment's end vertex included, is inside it.
\<close>

theorem computeBoundingSphere_start_vertices_only:
  "(map (js_nth ind') (sampleIndices beginIdx endIdx) = map (js_nth ind) (sampleIndices beginIdx endIdx)
      \<longrightarrow> computeBoundingSphere pos ind' beginIdx endIdx n dr
            = computeBoundingSphere pos ind beginIdx endIdx n dr) \<and>
   (beginIdx < endIdx \<and> endIdx \<le> beginIdx + 6 \<and>
    fromBufferAttribute pos (js_nth ind beginIdx) = Some p
      \<longrightarrow> computeBoundingSphere pos ind beginIdx endIdx n None = Some (Sphere p 0) \<and>
          (\<forall>q. q \<noteq> p \<longrightarrow> radius (Sphere p 0) < distanceTo (center (Sphere p 0)) q))"
proof (intro conjI impI allI)
  assume "map (js_nth ind') (sampleIndices beginIdx endIdx)
            = map (js_nth ind) (sampleIndices beginIdx endIdx)"
  then have "map (fromBufferAttribute pos) (map (js_nth ind') (sampleIndices beginIdx endIdx))
        = map (fromBufferAttribute pos) (map (js_nth ind) (sampleIndices beginIdx endIdx))"
    by simp
  then have "sampledVertices pos ind' beginIdx endIdx = sampledVertices pos ind beginIdx endIdx"
    by (simp add: sampledVertices_def comp_def)
  then show "computeBoundingSphere pos ind' beginIdx endIdx n dr
               = computeBoundingSphere pos ind beginIdx endIdx n dr"
    by (rule computeBoundingSphere_samples)
next
  assume a: "beginIdx < endIdx \<and> endIdx \<le> beginIdx + 6 \<and>
             fromBufferAttribute pos (js_nth ind beginIdx) = Some p"
  then have sv: "sampledVertices pos ind beginIdx endIdx = map Some [p]"
    by (simp add: sampledVertices_def sampleIndices_single)
  have c: "multiplyScalar (v_add p p) (1 / 2) = p"
    by (cases p) (simp add: multiplyScalar_def v_add_def)
  have d: "distanceTo p p = 0" by (simp add: distanceTo_def distanceToSquared_def)
  show "computeBoundingSphere pos ind beginIdx endIdx n None = Some (Sphere p 0)"
    using sphere_without_range [OF sv, of n]
    by (simp add: aabb_min_def aabb_max_def c d)
next
  fix q
  assume "beginIdx < endIdx \<and> endIdx \<le> beginIdx + 6 \<and>
          fromBufferAttribute pos (js_nth ind beginIdx) = Some p"
    and a: "q \<noteq> p"
  have "distanceToSquared p q \<noteq> 0"
  proof
    assume "distanceToSquared p q = 0"
    then have "vx p - vx q = 0 \<and> vy p - vy q = 0 \<and> vz p - vz q = 0"
      by (simp add: distanceToSquared_def Let_def add_nonneg_eq_0_iff)
    then have "q = p" by (cases p; cases q) simp
    with a show False by simp
  qed
  with distanceToSquared_nonneg [of p q] have "0 < distanceToSquared p q" by linarith
  then show "radius (Sphere p 0) < distanceTo (center (Sphere p 0)) q"
    by (simp add: distanceTo_def)
qed

section \<open>The bounding spheres of the example line\<close>


lemma ex_polyline_samples:
  "sampledVertices ex_polyline_position ex_polyline_indices 0 24
     = map Some [Vector3 0 4 0, Vector3 3 0 0, Vector3 6 4 0, Vector3 3 8 0]"
  by (simp add: sampledVertices_def sampleIndices_step sampleIndices_done
        ex_polyline_position_def ex_polyline_indices_def js_nth_def fromBufferAttribute_def)

theorem computeBoundingSphere_undisplaced_witness:
  "sampledVertices ex_polyline_position ex_polyline_indices 0 24
     = map Some [Vector3 0 4 0, Vector3 3 0 0, Vector3 6 4 0, Vector3 3 8 0] \<and>
   (\<exists>s. computeBoundingSphere ex_polyline_position ex_polyline_indices 0 24 None None = Some s \<and>
        center s = Vector3 3 4 0 \<and>
        (\<forall>v\<in>set [Vector3 0 4 0, Vector3 3 0 0, Vector3 6 4 0, Vector3 3 8 0].
           distanceTo (center s) v \<le> radius s))"
proof -
  have ne: "[Vector3 0 4 0, Vector3 3 0 0, Vector3 6 4 0, Vector3 3 8 0] \<noteq> []" by simp
  have c: "multiplyScalar (v_add (aabb_min [Vector3 0 4 0, Vector3 3 0 0, Vector3 6 4 0, Vector3 3 8 0])
             (aabb_max [Vector3 0 4 0, Vector3 3 0 0, Vector3 6 4 0, Vector3 3 8 0])) (1 / 2)
           = Vector3 3 4 0"
    by (simp add: aabb_min_def aabb_max_def multiplyScalar_def v_add_def)
  from computeBoundingSphere_undisplaced [OF ex_polyline_samples ne, of None]
  obtain s where "computeBoundingSphere ex_polyline_position ex_polyline_indices 0 24 None None = Some s"
    "center s = multiplyScalar (v_add (aabb_min [Vector3 0 4 0, Vector3 3 0 0, Vector3 6 4 0, Vector3 3 8 0])
             (aabb_max [Vector3 0 4 0, Vector3 3 0 0, Vector3 6 4 0, Vector3 3 8 0])) (1 / 2)"
    "\<forall>v\<in>set [Vector3 0 4 0, Vector3 3 0 0, Vector3 6 4 0, Vector3 3 8 0].
           distanceTo (center s) v \<le> radius s"
    by blast
  then show ?thesis using ex_polyline_samples c by metis
qed

theorem computeBoundingSphere_start_vertices_only_witness:
  "map (js_nth (ex_polyline_indices[20 := 0])) (sampleIndices 18 24)
     = map (js_nth ex_polyline_indices) (sampleIndices 18 24) \<and>
   computeBoundingSphere ex_polyline_position (ex_polyline_indices[20 := 0]) 18 24 None None
     = computeBoundingSphere ex_polyline_position ex_polyline_indices 18 24 None None \<and>
   (18::nat) < 24 \<and> (24::nat) \<le> 18 + 6 \<and>
   fromBufferAttribute ex_polyline_position (js_nth ex_polyline_indices 18) = Some (Vector3 3 8 0) \<and>
   computeBoundingSphere ex_polyline_position ex_polyline_indices 18 24 None None
     = Some (Sphere (Vector3 3 8 0) 0) \<and>
   Vector3 3 18 0 \<noteq> Vector3 3 8 0 \<and>
   radius (Sphere (Vector3 3 8 0) 0) < distanceTo (center (Sphere (Vector3 3 8 0) 0)) (Vector3 3 18 0)"
proof -
  have h1: "map (js_nth (ex_polyline_indices[20 := 0])) (sampleIndices 18 24)
     = map (js_nth ex_polyline_indices) (sampleIndices 18 24)"
    by (simp add: sampleIndices_step sampleIndices_done js_nth_def ex_polyline_indices_def)
  have h2: "(18::nat) < 24 \<and> (24::nat) \<le> 18 + 6 \<and>
      fromBufferAttribute ex_polyline_position (js_nth ex_polyline_indices 18) = Some (Vector3 3 8 0)"
    by (simp add: js_nth_def ex_polyline_indices_def ex_polyline_position_def fromBufferAttribute_def)
  have h3: "Vector3 3 18 0 \<noteq> Vector3 3 8 0" by simp
  note t = computeBoundingSphere_start_vertices_only
             [of "ex_polyline_indices[20 := 0]" 18 24 ex_polyline_indices ex_polyline_position
                 None None "Vector3 3 8 0"]
  from t h1 have a: "computeBoundingSphere ex_polyline_position (ex_polyline_indices[20 := 0]) 18 24 None None
     = computeBoundingSphere ex_polyline_position ex_polyline_indices 18 24 None None" by blast
  from t h2 have b: "computeBoundingSphere ex_polyline_position ex_polyline_indices 18 24 None None
     = Some (Sphere (Vector3 3 8 0) 0)" by blast
  from t h2 h3 have c: "radius (Sphere (Vector3 3 8 0) 0)
        < distanceTo (center (Sphere (Vector3 3 8 0) 0)) (Vector3 3 18 0)" by blast
  from h1 h2 h3 a b c show ?thesis by blast
qed

section \<open>The local threshold\<close>

text \<open>
  Claim C4, as amended. The local threshold is the threshold divided by the mean of the
  three components of the mesh's own \<open>scale\<close>, and the feature loop of \<open>raycastImpl\<close>,
  which hands it to the width test of every segment, runs with its square. The mean is
  not zero and the material is a single one.
\<close>

theorem raycastImpl_local_threshold:
  assumes "asBufferGeometry this = Some g" and "index g = Some indices"
    and "material this = Single m"
    and "vx (scale this) + vy (scale this) + vz (scale this) \<noteq> 0"
  shows "localThreshold (Some (lineWidth m + outlineWidth m)) (scale this)
           = Some ((lineWidth m + outlineWidth m)
                    / ((vx (scale this) + vy (scale this) + vz (scale this)) / 3)) \<and>
         fst (snd (raycastImpl rc xs this)) =
         fst (snd (featureLoop
                     (map_option (ray_applyMatrix4 (ray rc)) (getInverse (matrixWorld this)))
                     this rc (Some (lineWidth m + outlineWidth m))
                     (Some (((lineWidth m + outlineWidth m)
                              / ((vx (scale this) + vy (scale this) + vz (scale this)) / 3))\<^sup>2))
                     g indices (featureStartsOf this) (js_nth (normal g) 0) (activeRange this) 0
                     (cachedVolumes this, xs, [])))"
proof -
  have l: "localThreshold (Some (lineWidth m + outlineWidth m)) (scale this)
           = Some ((lineWidth m + outlineWidth m)
                    / ((vx (scale this) + vy (scale this) + vz (scale this)) / 3))"
    using assms(4) by (simp add: localThreshold_def js_div_def)
  show ?thesis
    unfolding raycastImpl_unfold [OF assms(1,2)] Let_def
    by (simp add: assms(3) l power2_eq_square)
qed

theorem raycastImpl_local_threshold_witness:
  "asBufferGeometry ex_mesh_scaled_parent = Some ex_geometry \<and>
   index ex_geometry = Some ex_indices \<and>
   material ex_mesh_scaled_parent = Single ex_material \<and>
   vx (scale ex_mesh_scaled_parent) + vy (scale ex_mesh_scaled_parent)
     + vz (scale ex_mesh_scaled_parent) \<noteq> 0 \<and>
   localThreshold (Some (lineWidth ex_material + outlineWidth ex_material))
     (scale ex_mesh_scaled_parent) = Some 1"
proof -
  have h: "asBufferGeometry ex_mesh_scaled_parent = Some ex_geometry"
    "index ex_geometry = Some ex_indices"
    "material ex_mesh_scaled_parent = Single ex_material"
    "vx (scale ex_mesh_scaled_parent) + vy (scale ex_mesh_scaled_parent)
       + vz (scale ex_mesh_scaled_parent) \<noteq> 0"
    by (simp_all add: ex_mesh_scaled_parent_def ex_mesh_def asBufferGeometry_def ex_geometry_def)
  have v: "(lineWidth ex_material + outlineWidth ex_material)
             / ((vx (scale ex_mesh_scaled_parent) + vy (scale ex_mesh_scaled_parent)
                  + vz (scale ex_mesh_scaled_parent)) / 3) = 1"
    by (simp add: ex_mesh_scaled_parent_def ex_mesh_def ex_material_def)
  from conjunct1 [OF raycastImpl_local_threshold [OF h, of ex_raycaster "[]"]] h v
  show ?thesis by simp
qed

text \<open>
  Claim C4, as stated, fails: the divisor is taken from the mesh's own \<open>scale\<close> vector,
  not from its world transform. For a mesh with scale 1 under a parent scaled by 2 the
  source divides the threshold 1 by 1; the average axis scale of the world transform is
  2 and would give 1/2.
\<close>

theorem local_threshold_counterexample:
  "localThreshold (Some (lineWidth ex_material + outlineWidth ex_material))
     (scale ex_mesh_scaled_parent) = Some 1 \<and>
   spec_localThreshold (lineWidth ex_material + outlineWidth ex_material) ex_mesh_scaled_parent
     = 1 / 2"
  by (simp add: localThreshold_def js_div_def spec_localThreshold_def spec_averageAxisScale_def
        ex_mesh_scaled_parent_def ex_mesh_def ex_material_def v_length_def)

section \<open>The segment test\<close>

text \<open>
  What the body of the segment loop decides, for a segment whose two vertices and
  extrusion are within the arrays: a record is pushed exactly when the local ray meets
  the plane, the width test does not skip and the distance is within \<open>near\<close> and \<open>far\<close>.
\<close>

lemma segmentHit_emits_iff:
  assumes "fromBufferAttribute (position g) (js_nth ind i) = Some s"
    and "fromBufferAttribute (position g) (js_nth ind (i + 2)) = Some e"
    and "js_nth ind i = Some a" and "js_nth (bitangent g) a = Some ext"
  shows "segmentHit (Some r) this rc th lt g ind i = Some (hit, dbg) \<longleftrightarrow>
     (\<exists>q. intersectPlane r (setFromCoplanarPoints s (v_add s ext) e) = Some q \<and>
          \<not> js_gt (map_option (distanceToSquared q) (closestPointToPoint (Line3 s e) q True)) lt \<and>
          \<not> distanceTo (origin (ray rc)) (applyMatrix4 q (matrixWorld this)) < near rc \<and>
          \<not> js_gt (Some (distanceTo (origin (ray rc)) (applyMatrix4 q (matrixWorld this)))) (far rc) \<and>
          hit = Intersection (distanceTo (origin (ray rc)) (applyMatrix4 q (matrixWorld this)))
                  (applyMatrix4 q (matrixWorld this)) i (mesh_id this) \<and>
          dbg = DebugEntry (line3_applyMatrix4 (Line3 s e) (matrixWorld this))
                  (Ray (applyMatrix4 q (matrixWorld this))
                     (transformDirection ext (matrixWorld this))) th)"
  using assms by (auto simp: segmentHit_def Let_def split: option.splits)

text \<open>
  For a segment with two different end points the width test is the one the spec
  describes: a ray that stays farther than the local threshold from every point of the
  segment gives no record.
\<close>

lemma v_dot_self_zero: "v_dot d d = 0 \<longleftrightarrow> d = Vector3 0 0 0"
  by (cases d) (auto simp: v_dot_def add_nonneg_eq_0_iff)

lemma segmentHit_misses_far_ray:
  assumes s: "fromBufferAttribute (position g) (js_nth ind i) = Some s"
    and e: "fromBufferAttribute (position g) (js_nth ind (i + 2)) = Some e"
    and ne: "s \<noteq> e"
    and far: "\<And>t u. 0 \<le> t \<Longrightarrow> 0 \<le> u \<Longrightarrow> u \<le> 1 \<Longrightarrow>
               lt < distanceToSquared (ray_at r t) (v_add (multiplyScalar (v_sub e s) u) s)"
  shows "segmentHit (Some r) this rc th (Some lt) g ind i = None"
proof -
  have d: "v_dot (v_sub e s) (v_sub e s) \<noteq> 0"
    using ne by (cases s; cases e) (auto simp: v_dot_self_zero v_sub_def)
  have hit: "js_gt (map_option (distanceToSquared q) (closestPointToPoint (Line3 s e) q True))
               (Some lt)"
    if "intersectPlane r pl = Some q" for pl q
  proof -
    from that obtain t where t: "distanceToPlane r pl = Some t" "q = ray_at r t"
      by (auto simp: intersectPlane_def)
    then have "0 \<le> t" by (auto simp: distanceToPlane_def Let_def split: if_splits)
    obtain u where u: "closestPointToPoint (Line3 s e) q True
                         = Some (v_add (multiplyScalar (v_sub e s) u) s)" "0 \<le> u" "u \<le> 1"
      using d by (simp add: closestPointToPoint_def closestPointToPointParameter_def Let_def)
    show ?thesis using far [OF \<open>0 \<le> t\<close> u(2,3)] u(1) t(2) by (simp add: js_gt_def)
  qed
  show ?thesis
    using s e by (auto simp: segmentHit_def Let_def hit split: option.splits)
qed

section \<open>A segment of no length\<close>

lemma ex_degenerate_length: "length ex_degenerate_indices = 12"
  by (simp add: ex_degenerate_indices_def)

lemma ex_degenerate_sphere:
  "computeBoundingSphere (position ex_degenerate_geometry) ex_degenerate_indices 0 12 n None
     = Some (Sphere (Vector3 5 0 0) 5)"
  by (simp add: computeBoundingSphere_def ex_degenerate_geometry_def ex_degenerate_indices_def
        expandLoop_step expandLoop_done radiusLoop_step radiusLoop_done fromBufferAttribute_def
        js_nth_def js_max_def multiplyScalar_def v_add_def v_min_def v_max_def
        distanceToSquared_def sqrt_25)

lemma ex_degenerate_first:
  "segmentHit (Some (ray ex_offset_raycaster)) ex_degenerate_mesh ex_offset_raycaster (Some 1)
     (Some 1) ex_degenerate_geometry ex_degenerate_indices 0 = None"
  by (simp add: segmentHit_def ex_degenerate_geometry_def ex_degenerate_indices_def
        ex_degenerate_mesh_def ex_mesh_def ex_offset_raycaster_def identity_def js_nth_def
        fromBufferAttribute_def setFromCoplanarPoints_def v_add_def v_sub_def v_cross_def
        normalize_def v_length_def multiplyScalar_def v_dot_def intersectPlane_def
        distanceToPlane_def distanceToPoint_def ray_at_def closestPointToPoint_def
        closestPointToPointParameter_def distanceToSquared_def js_gt_def sqrt_100 Let_def)

lemma ex_degenerate_second:
  "segmentHit (Some (ray ex_offset_raycaster)) ex_degenerate_mesh ex_offset_raycaster (Some 1)
     (Some 1) ex_degenerate_geometry ex_degenerate_indices 6
   = Some (Intersection 0 (Vector3 5 3 5) 6 7,
           DebugEntry (Line3 (Vector3 10 0 0) (Vector3 10 0 0))
             (Ray (Vector3 5 3 5) (Vector3 0 1 0)) (Some 1))"
  by (simp add: segmentHit_def ex_degenerate_geometry_def ex_degenerate_indices_def
        ex_degenerate_mesh_def ex_mesh_def ex_offset_raycaster_def identity_def js_nth_def
        fromBufferAttribute_def setFromCoplanarPoints_def v_add_def v_sub_def v_cross_def
        normalize_def v_length_def multiplyScalar_def v_dot_def intersectPlane_def
        distanceToPlane_def distanceToPoint_def ray_at_def closestPointToPoint_def
        closestPointToPointParameter_def distanceToSquared_def js_gt_def applyMatrix4_def
        distanceTo_def line3_applyMatrix4_def transformDirection_def Let_def)

lemma ex_degenerate_feature:
  "featureIntersect (Some (ray ex_offset_raycaster)) ex_degenerate_mesh ex_offset_raycaster
     (Some 1) (Some 1) ex_degenerate_geometry ex_degenerate_indices 0 12
     (Some (Sphere (Vector3 5 0 0) 5)) ([], [])
   = ([Intersection 0 (Vector3 5 3 5) 6 7],
      [DebugEntry (Line3 (Vector3 10 0 0) (Vector3 10 0 0))
         (Ray (Vector3 5 3 5) (Vector3 0 1 0)) (Some 1)])"
proof -
  have s: "intersectsSphere (ray ex_offset_raycaster)
             (Sphere (center (sphere_applyMatrix4 (Sphere (Vector3 5 0 0) 5)
                                (matrixWorld ex_degenerate_mesh)))
                (radius (sphere_applyMatrix4 (Sphere (Vector3 5 0 0) 5)
                           (matrixWorld ex_degenerate_mesh)) + 1))"
    by (simp add: intersectsSphere_def sphere_applyMatrix4_def ex_degenerate_mesh_def ex_mesh_def
          identity_def applyMatrix4_def distanceSqToPoint_def ex_offset_raycaster_def v_dot_def
          v_sub_def distanceToSquared_def v_add_def multiplyScalar_def getMaxScaleOnAxis_def
          Let_def)
  show ?thesis
    by (simp add: featureIntersect_def Let_def s segmentLoop_step segmentLoop_done
          ex_degenerate_first ex_degenerate_second)
qed

lemma ex_offset_local_ray:
  "map_option (ray_applyMatrix4 (ray ex_offset_raycaster)) (getInverse identity)
     = Some (ray ex_offset_raycaster)"
  by (simp add: ex_inverse)
     (simp add: ray_applyMatrix4_def ex_offset_raycaster_def identity_def applyMatrix4_def
        transformDirection_def normalize_def v_length_def multiplyScalar_def)

lemma ex_degenerate_raycastImpl:
  "fst (snd (raycastImpl ex_offset_raycaster [] ex_degenerate_mesh))
     = [Intersection 0 (Vector3 5 3 5) 6 7]"
proof -
  have g: "asBufferGeometry ex_degenerate_mesh = Some ex_degenerate_geometry"
    by (simp add: ex_degenerate_mesh_def ex_mesh_def asBufferGeometry_def)
  have i: "index ex_degenerate_geometry = Some ex_degenerate_indices"
    by (simp add: ex_degenerate_geometry_def)
  have r: "map_option (ray_applyMatrix4 (ray ex_offset_raycaster))
             (getInverse (matrixWorld ex_degenerate_mesh)) = Some (ray ex_offset_raycaster)"
    using ex_offset_local_ray by (simp add: ex_degenerate_mesh_def ex_mesh_def)
  have t: "material ex_degenerate_mesh = Single ex_material"
    "scale ex_degenerate_mesh = Vector3 1 1 1"
    "userData_feature ex_degenerate_mesh = None" "geometry ex_degenerate_mesh = GeometryRef 0"
    by (simp_all add: ex_degenerate_mesh_def ex_mesh_def)
  have l: "localThreshold (Some 1) (Vector3 1 1 1) = Some 1"
    by (simp add: localThreshold_def js_div_def)
  have f: "featureLoop (Some (ray ex_offset_raycaster)) ex_degenerate_mesh ex_offset_raycaster
             (Some 1) (Some 1) ex_degenerate_geometry ex_degenerate_indices [0] n None 0
             ([], [], [])
           = ([Some (Sphere (Vector3 5 0 0) 5)], [Intersection 0 (Vector3 5 3 5) 6 7],
              [DebugEntry (Line3 (Vector3 10 0 0) (Vector3 10 0 0))
                 (Ray (Vector3 5 3 5) (Vector3 0 1 0)) (Some 1)])" for n
    by (simp add: featureLoop_step featureLoop_done Let_def ex_degenerate_length
          ex_degenerate_sphere js_nth_def ex_degenerate_feature)
  show ?thesis
    by (simp add: raycastImpl_def g i r t Let_def ex_material_def l f)
qed

text \<open>
  Claim C3 fails on the source for a segment of no length. The second segment of
  the example line starts and ends at \<open>(10, 0, 0)\<close>. Its three plane points are collinear,
  the plane's normal is the zero vector, and the ray is taken to meet that plane at its
  own origin; the closest point on a line of no length is \<open>0 / 0\<close>, and the width test
  \<open>distSq > localThresholdSq\<close> is false for \<open>NaN\<close>. The ray passes the point at a squared
  distance of 34, the squared local threshold is 1, and the call still returns a record
  for the segment at index 6: at distance 0, at the ray's origin.
\<close>

theorem raycast_degenerate_segment:
  "fst (snd (raycast ex_offset_raycaster [] ex_degenerate_mesh))
     = [Intersection 0 (Vector3 5 3 5) 6 7] \<and>
   fromBufferAttribute (position ex_degenerate_geometry) (js_nth ex_degenerate_indices 6)
     = Some (Vector3 10 0 0) \<and>
   fromBufferAttribute (position ex_degenerate_geometry) (js_nth ex_degenerate_indices (6 + 2))
     = Some (Vector3 10 0 0) \<and>
   distanceSqToPoint (ray ex_offset_raycaster) (Vector3 10 0 0) = 34"
proof -
  have "\<not> takesDisplacedPath ex_degenerate_mesh"
    by (simp add: takesDisplacedPath_def ex_degenerate_mesh_def ex_mesh_def ex_material_def)
  then have "raycast ex_offset_raycaster [] ex_degenerate_mesh
               = raycastImpl ex_offset_raycaster [] ex_degenerate_mesh"
    by (rule raycast_fallback)
  moreover have "fromBufferAttribute (position ex_degenerate_geometry)
                   (js_nth ex_degenerate_indices 6) = Some (Vector3 10 0 0)"
    "fromBufferAttribute (position ex_degenerate_geometry)
                   (js_nth ex_degenerate_indices (6 + 2)) = Some (Vector3 10 0 0)"
    by (simp_all add: ex_degenerate_geometry_def ex_degenerate_indices_def js_nth_def
          fromBufferAttribute_def)
  moreover have "distanceSqToPoint (ray ex_offset_raycaster) (Vector3 10 0 0) = 34"
    by (simp add: distanceSqToPoint_def ex_offset_raycaster_def v_dot_def v_sub_def
          distanceToSquared_def v_add_def multiplyScalar_def Let_def)
  ultimately show ?thesis by (simp add: ex_degenerate_raycastImpl)
qed

section \<open>What the loops push\<close>

lemma segmentLoop_append:
  "segmentLoop tr this rc th lt g ind i e acc =
     (fst acc @ map fst (List.map_filter (segmentHit tr this rc th lt g ind) (sampleIndices i e)),
      snd acc @ map snd (List.map_filter (segmentHit tr this rc th lt g ind) (sampleIndices i e)))"
proof (induction tr this rc th lt g ind i e acc rule: segmentLoop.induct)
  case (1 tr this rc th lt g ind i e acc)
  show ?case
  proof (cases "i < e")
    case True
    show ?thesis
      using 1 [OF True] True
      by (cases "segmentHit tr this rc th lt g ind i")
         (auto simp: segmentLoop_step sampleIndices_step)
  next
    case False
    then show ?thesis
      by (simp add: segmentLoop_done sampleIndices_done)
  qed
qed

lemma featureIntersect_append:
  "featureIntersect tr this rc th lt g ind b e bSphere acc =
     (fst acc @ map fst (featureHits tr this rc th lt g ind b e bSphere),
      snd acc @ map snd (featureHits tr this rc th lt g ind b e bSphere))"
  by (auto simp: featureIntersect_def featureHits_def Let_def segmentLoop_append
        split: option.splits)

lemma featureLoop_unfold:
  assumes "i < length fs"
  shows "featureLoop tr this rc th lt g ind fs n dr i (bv, xs, ds) =
     (let bv' = (if i \<ge> length bv then bv @ [featureSphere (position g) ind fs n dr i] else bv);
          hs = featureHits tr this rc th lt g ind (fs ! i) (featureEnd fs ind i)
                 (case js_nth bv' i of None \<Rightarrow> None | Some sp \<Rightarrow> sp)
      in featureLoop tr this rc th lt g ind fs n dr (i + 1)
           (bv', xs @ map fst hs, ds @ map snd hs))"
  using assms
  by (simp add: featureLoop_step Let_def featureSphere_def featureEnd_def
        featureIntersect_append)

lemma featureLoop_effect:
  "\<exists>hs. featureLoop tr this rc th lt g ind fs n dr i (bv, xs, ds) =
     (bv @ map (featureSphere (position g) ind fs n dr) [max i (length bv) ..< length fs],
      xs @ map fst hs, ds @ map snd hs)"
proof (induction "length fs - i" arbitrary: i bv xs ds)
  case 0
  then have "\<not> i < length fs" by simp
  then show ?case by (simp add: featureLoop_done)
next
  case (Suc k)
  then have lt: "i < length fs" and k: "k = length fs - (i + 1)" by simp_all
  let ?bv' = "if i \<ge> length bv then bv @ [featureSphere (position g) ind fs n dr i] else bv"
  let ?hs = "featureHits tr this rc th lt g ind (fs ! i) (featureEnd fs ind i)
               (case js_nth ?bv' i of None \<Rightarrow> None | Some sp \<Rightarrow> sp)"
  from Suc(1) [OF k, of ?bv' "xs @ map fst ?hs" "ds @ map snd ?hs"] obtain hs' where
    r: "featureLoop tr this rc th lt g ind fs n dr (i + 1) (?bv', xs @ map fst ?hs, ds @ map snd ?hs)
        = (?bv' @ map (featureSphere (position g) ind fs n dr) [max (i + 1) (length ?bv') ..< length fs],
           (xs @ map fst ?hs) @ map fst hs', (ds @ map snd ?hs) @ map snd hs')"
    by blast
  have b: "?bv' @ map (featureSphere (position g) ind fs n dr) [max (i + 1) (length ?bv') ..< length fs]
           = bv @ map (featureSphere (position g) ind fs n dr) [max i (length bv) ..< length fs]"
  proof (cases "i \<ge> length bv")
    case True
    then have "max i (length bv) = i" "max (i + 1) (length ?bv') = i + 1" by simp_all
    then show ?thesis using True lt by (simp add: upt_conv_Cons)
  next
    case False
    then have "max i (length bv) = length bv" "max (i + 1) (length ?bv') = length bv" by simp_all
    then show ?thesis using False by simp
  qed
  show ?case
    unfolding featureLoop_unfold [OF lt] Let_def r b
    by (rule exI [of _ "?hs @ hs'"]) simp
qed

lemma set_debug_buffer:
  "asBufferGeometry this = Some g \<Longrightarrow>
     asBufferGeometry (set_debug dbg this) = Some (g\<lparr>userData_debug := Some dbg\<rparr>)"
  by (auto simp: asBufferGeometry_def set_debug_def
        split: geometry_ref.splits geometry_obj.splits option.splits)

lemma asBufferGeometry_feature_update:
  "asBufferGeometry (this\<lparr>userData_feature := f\<rparr>) = asBufferGeometry this"
  by (simp add: asBufferGeometry_def cong: geometry_ref.case_cong)

lemma set_debug_buffer_feature:
  "asBufferGeometry this = Some g \<Longrightarrow>
     asBufferGeometry (set_debug dbg (this\<lparr>userData_feature := f\<rparr>))
       = Some (g\<lparr>userData_debug := Some dbg\<rparr>)"
  by (rule set_debug_buffer) (simp add: asBufferGeometry_feature_update)

text \<open>
  Claim C10. A call of \<open>raycastImpl\<close> that passes the two checks (every call of \<open>raycast\<close>
  ends in one) returns, and leaves behind: \<open>userData.debug\<close> of the active geometry set
  to one entry per record it has added to the caller's list, whatever it held before;
  \<open>userData.feature\<close> on the mesh, with its \<open>boundingVolumes\<close>, created if absent; and in
  that cache, after the entries it found, the sphere it has computed for every feature
  the cache did not cover.
\<close>

theorem raycastImpl_persistent_state:
  assumes "asBufferGeometry this = Some g" and "index g = Some indices"
  shows "\<exists>hs.
     fst (raycastImpl rc xs this) = Returns \<and>
     fst (snd (raycastImpl rc xs this)) = xs @ map fst hs \<and>
     asBufferGeometry (snd (snd (raycastImpl rc xs this)))
       = Some (g\<lparr>userData_debug := Some (map snd hs)\<rparr>) \<and>
     userData_feature (snd (snd (raycastImpl rc xs this)))
       = Some \<lparr>starts = cachedStarts this,
               boundingVolumes =
                 Some (cachedVolumes this @
                       map (featureSphere (position g) indices (featureStartsOf this)
                              (js_nth (normal g) 0) (activeRange this))
                         [length (cachedVolumes this) ..< length (featureStartsOf this)])\<rparr>"
proof -
  let ?th = "case material this of
               Single m \<Rightarrow> Some (lineWidth m + outlineWidth m) | Multi m ms \<Rightarrow> None"
  let ?F = "featureLoop (map_option (ray_applyMatrix4 (ray rc)) (getInverse (matrixWorld this)))
              this rc ?th (map_option (\<lambda>t. t * t) (localThreshold ?th (scale this)))
              g indices (featureStartsOf this) (js_nth (normal g) 0) (activeRange this) 0
              (cachedVolumes this, xs, [])"
  obtain hs where hs: "?F =
      (cachedVolumes this @
         map (featureSphere (position g) indices (featureStartsOf this)
                (js_nth (normal g) 0) (activeRange this))
           [max 0 (length (cachedVolumes this)) ..< length (featureStartsOf this)],
       xs @ map fst hs, [] @ map snd hs)"
    using featureLoop_effect by blast
  let ?this' = "this\<lparr>userData_feature :=
                  Some \<lparr>starts = cachedStarts this, boundingVolumes = Some (fst ?F)\<rparr>\<rparr>"
  have r: "raycastImpl rc xs this = (Returns, fst (snd ?F), set_debug (snd (snd ?F)) ?this')"
    using raycastImpl_unfold [OF assms, of rc xs] by (simp add: Let_def)
  show ?thesis
    unfolding r
    by (rule exI [of _ hs])
       (simp add: hs set_debug_buffer_feature [OF assms(1)] set_debug_feature)
qed

theorem raycastImpl_persistent_state_witness:
  "asBufferGeometry ex_mesh = Some ex_geometry \<and> index ex_geometry = Some ex_indices \<and>
   userData_feature ex_mesh = None \<and> userData_debug ex_geometry = None \<and>
   (\<exists>hs. fst (snd (raycastImpl ex_raycaster [] ex_mesh)) = [] @ map fst hs \<and>
      asBufferGeometry (snd (snd (raycastImpl ex_raycaster [] ex_mesh)))
        = Some (ex_geometry\<lparr>userData_debug := Some (map snd hs)\<rparr>) \<and>
      userData_feature (snd (snd (raycastImpl ex_raycaster [] ex_mesh))) \<noteq> None)"
proof -
  have h: "asBufferGeometry ex_mesh = Some ex_geometry" "index ex_geometry = Some ex_indices"
    by (simp_all add: ex_mesh_def asBufferGeometry_def ex_geometry_def)
  have n: "userData_feature ex_mesh = None" "userData_debug ex_geometry = None"
    by (simp_all add: ex_mesh_def ex_geometry_def)
  from raycastImpl_persistent_state [OF h, of ex_raycaster "[]"] h n
  show ?thesis by auto
qed

section \<open>A displacement of zero\<close>




lemma displacedState_range:
  "activeRange (displacedState this g dmap) = Some (m_getDisplacementRange this)"
  by (cases "m_displacedGeometry this")
     (simp_all add: displacedState_def activeRange_def reset_def newDisplacedBufferGeometry_def)

lemma displacedState_fields:
  "material (displacedState this g dmap) = material this"
  "matrixWorld (displacedState this g dmap) = matrixWorld this"
  "scale (displacedState this g dmap) = scale this"
  "mesh_id (displacedState this g dmap) = mesh_id this"
  "featureStartsOf (displacedState this g dmap) = featureStartsOf this"
  "cachedVolumes (displacedState this g dmap) = cachedVolumes this"
  by (simp_all add: displacedState_def featureStartsOf_def cachedStarts_def cachedVolumes_def)





section \<open>The example line with and without displacement\<close>
















section \<open>The bounding sphere on the displaced path\<close>

lemma sqrt_64: "sqrt 64 = 8"
  by (rule real_sqrt_unique) auto

lemma sqrt_9: "sqrt 9 = 3"
  by (rule real_sqrt_unique) auto

lemma ex_lifted_length: "length ex_lifted_indices = 12"
  by (simp add: ex_lifted_indices_def)

lemma ex_lifted_sphere:
  "computeBoundingSphere (position ex_lifted_view) ex_lifted_indices 0 12
     (Some (Vector3 0 0 1)) (Some \<lparr>range_min = 1, range_max = 1\<rparr>)
     = Some (Sphere (Vector3 3 4 2) 5)"
  by (simp add: computeBoundingSphere_def ex_lifted_view_def ex_lifted_position_def
        ex_lifted_indices_def expandLoop_step expandLoop_done fromBufferAttribute_def
        js_nth_def multiplyScalar_def v_add_def v_sub_def v_min_def v_max_def
        getBoundingSphere_def v_length_def sqrt_100)

lemma ex_lifted_local_ray:
  "map_option (ray_applyMatrix4 (ray ex_lifted_raycaster)) (getInverse identity)
     = Some (ray ex_lifted_raycaster)"
  by (simp add: ex_inverse)
     (simp add: ray_applyMatrix4_def ex_lifted_raycaster_def identity_def applyMatrix4_def
        transformDirection_def normalize_def v_length_def multiplyScalar_def)

lemma ex_lifted_threshold:
  "map_option (\<lambda>t. t * t) (localThreshold (Some (1 / 16)) (Vector3 1 1 1)) = Some (1 / 256)"
  by (simp add: localThreshold_def js_div_def)

lemma ex_lifted_rejected:
  "\<not> intersectsSphere (ray ex_lifted_raycaster)
       (Sphere (center (sphere_applyMatrix4 (Sphere (Vector3 3 4 2) 5) identity))
          (radius (sphere_applyMatrix4 (Sphere (Vector3 3 4 2) 5) identity) + 1 / 16))"
  by (simp add: intersectsSphere_def sphere_applyMatrix4_def identity_def applyMatrix4_def
        distanceSqToPoint_def ex_lifted_raycaster_def v_dot_def v_sub_def
        distanceToSquared_def v_add_def multiplyScalar_def getMaxScaleOnAxis_def Let_def)

lemma ex_lifted_hit:
  "matrixWorld this = identity \<Longrightarrow> mesh_id this = 7 \<Longrightarrow>
   segmentHit (Some (ray ex_lifted_raycaster)) this ex_lifted_raycaster (Some (1 / 16))
     (Some (1 / 256)) ex_lifted_view ex_lifted_indices 0
   = Some (Intersection 3 (Vector3 0 0 1) 0 7,
           DebugEntry (Line3 (Vector3 0 0 1) (Vector3 6 8 1))
             (Ray (Vector3 0 0 1) (Vector3 1 0 0)) (Some (1 / 16)))"
  by (simp add: segmentHit_def ex_lifted_view_def ex_lifted_geometry_def
        ex_lifted_position_def ex_lifted_indices_def ex_lifted_raycaster_def js_nth_def
        identity_def fromBufferAttribute_def setFromCoplanarPoints_def v_add_def v_sub_def
        v_cross_def normalize_def v_length_def multiplyScalar_def v_dot_def intersectPlane_def
        distanceToPlane_def distanceToPoint_def ray_at_def closestPointToPoint_def
        closestPointToPointParameter_def distanceToSquared_def js_gt_def applyMatrix4_def
        distanceTo_def line3_applyMatrix4_def transformDirection_def sqrt_64 sqrt_9 Let_def)

lemma ex_lifted_raycast:
  "fst (snd (raycast ex_lifted_raycaster [] ex_lifted_mesh)) = [] \<and>
   cachedVolumes (snd (snd (raycast ex_lifted_raycaster [] ex_lifted_mesh)))
     = [Some (Sphere (Vector3 3 4 2) 5)]"
proof -
  let ?d = "displacedState ex_lifted_mesh ex_lifted_geometry (\<lambda>t. 1)"
  have g: "asBufferGeometry ex_lifted_mesh = Some ex_lifted_geometry"
    by (simp add: ex_lifted_mesh_def asBufferGeometry_def)
  have f: "displacementFeature
             (case material ex_lifted_mesh of Multi m ms \<Rightarrow> m | Single m \<Rightarrow> m)"
    by (simp add: ex_lifted_mesh_def)
  have m: "displacementMap
             (case material ex_lifted_mesh of Multi m ms \<Rightarrow> m | Single m \<Rightarrow> m)
           = Some (\<lambda>t. 1)"
    by (simp add: ex_lifted_mesh_def)
  have gd: "asBufferGeometry ?d = Some ex_lifted_view"
    by (simp add: displacedState_def asBufferGeometry_def ex_lifted_mesh_def
          newDisplacedBufferGeometry_def getDisplacedPositionAttribute_def
          ex_lifted_view_def ex_lifted_geometry_def)
  have i: "index ex_lifted_view = Some ex_lifted_indices"
    by (simp add: ex_lifted_view_def ex_lifted_geometry_def)
  have t: "matrixWorld ex_lifted_mesh = identity"
    "scale ex_lifted_mesh = Vector3 1 1 1"
    "featureStartsOf ex_lifted_mesh = [0]"
    "cachedVolumes ex_lifted_mesh = []"
    "m_getDisplacementRange ex_lifted_mesh = \<lparr>range_min = 1, range_max = 1\<rparr>"
    "(case material ex_lifted_mesh of
        Single m \<Rightarrow> Some (lineWidth m + outlineWidth m) | Multi m ms \<Rightarrow> None) = Some (1 / 16)"
    "js_nth (normal ex_lifted_view) 0 = Some (Vector3 0 0 1)"
    by (simp_all add: ex_lifted_mesh_def featureStartsOf_def cachedStarts_def
          cachedVolumes_def ex_lifted_view_def ex_lifted_geometry_def js_nth_def)
  have h: "featureHits tr ?d ex_lifted_raycaster (Some (1 / 16)) lt ex_lifted_view
             ex_lifted_indices 0 12 (Some (Sphere (Vector3 3 4 2) 5)) = []" for tr lt
    by (simp add: featureHits_def displacedState_fields t(1) ex_lifted_rejected)
  have loop: "featureLoop tr ?d ex_lifted_raycaster (Some (1 / 16)) lt ex_lifted_view
                ex_lifted_indices [0] (Some (Vector3 0 0 1))
                (Some \<lparr>range_min = 1, range_max = 1\<rparr>) 0 ([], [], [])
              = ([Some (Sphere (Vector3 3 4 2) 5)], [], [])" for tr lt
    by (simp add: featureLoop_unfold featureLoop_done featureSphere_def featureEnd_def
          ex_lifted_length ex_lifted_sphere js_nth_def h Let_def)
  have r: "raycastImpl ex_lifted_raycaster [] ?d =
             (Returns, [],
              set_debug []
                (?d\<lparr>userData_feature :=
                       Some \<lparr>starts = cachedStarts ?d,
                             boundingVolumes = Some [Some (Sphere (Vector3 3 4 2) 5)]\<rparr>\<rparr>))"
    unfolding raycastImpl_unfold [OF gd i] Let_def displacedState_fields displacedState_range t
      loop
    by simp
  show ?thesis
    unfolding raycast_displaced [OF g f m] Let_def r
    by (simp add: cachedVolumes_def set_debug_feature)
qed

text \<open>
  Claim C5 fails in the program. The example line has the undisplaced vertices
  \<open>(0, 0, 0)\<close> and \<open>(6, 8, 0)\<close> sampled, the normal \<open>(0, 0, 1)\<close>, a displacement map
  that is 1 everywhere and the displacement range \<open>(1, 1)\<close>. \<open>raycastImpl\<close> passes the
  positions of the displaced view together with the range, so the box over
  \<open>(0, 0, 1)\<close> and \<open>(6, 8, 1)\<close> is translated by the normal once more, and the sphere
  that \<open>raycast\<close> computes and caches has the centre \<open>(3, 4, 2)\<close> and the radius 5. The
  first sampled vertex translated by \<open>range.min\<close> along the normal, \<open>(0, 0, 1)\<close>, which
  is also the displaced vertex, is outside it, at the squared distance 26. A ray
  through that vertex is rejected by the sphere test and \<open>raycast\<close> returns no record,
  although the segment test on the displaced first segment gives one, 3 from the origin
  of the ray.
\<close>

theorem raycast_displaces_samples_twice:
  "getXYZ (position ex_lifted_geometry) 0 = Some (Vector3 0 0 0) \<and>
   js_nth (normal ex_lifted_geometry) 0 = Some (Vector3 0 0 1) \<and>
   m_getDisplacementRange ex_lifted_mesh = \<lparr>range_min = 1, range_max = 1\<rparr> \<and>
   cachedVolumes (snd (snd (raycast ex_lifted_raycaster [] ex_lifted_mesh)))
     = [Some (Sphere (Vector3 3 4 2) 5)] \<and>
   distanceToSquared (Vector3 3 4 2) (v_add (Vector3 0 0 0) (multiplyScalar (Vector3 0 0 1) 1))
     = 26 \<and>
   5 < distanceTo (Vector3 3 4 2) (v_add (Vector3 0 0 0) (multiplyScalar (Vector3 0 0 1) 1)) \<and>
   fst (snd (raycast ex_lifted_raycaster [] ex_lifted_mesh)) = [] \<and>
   segmentHit (Some (ray ex_lifted_raycaster))
       (displacedState ex_lifted_mesh ex_lifted_geometry (\<lambda>t. 1)) ex_lifted_raycaster
       (Some (1 / 16)) (Some (1 / 256)) ex_lifted_view ex_lifted_indices 0
     = Some (Intersection 3 (Vector3 0 0 1) 0 7,
             DebugEntry (Line3 (Vector3 0 0 1) (Vector3 6 8 1))
               (Ray (Vector3 0 0 1) (Vector3 1 0 0)) (Some (1 / 16)))"
proof -
  have "matrixWorld (displacedState ex_lifted_mesh ex_lifted_geometry (\<lambda>t. 1)) = identity"
    "mesh_id (displacedState ex_lifted_mesh ex_lifted_geometry (\<lambda>t. 1)) = 7"
    by (simp_all add: displacedState_fields ex_lifted_mesh_def)
  moreover have "(5::real) < sqrt 26"
    by (rule real_less_rsqrt) simp
  ultimately show ?thesis
    by (simp add: ex_lifted_raycast ex_lifted_hit)
       (simp add: ex_lifted_geometry_def ex_lifted_position_def ex_lifted_mesh_def js_nth_def
          distanceTo_def distanceToSquared_def v_add_def multiplyScalar_def)
qed

end
